theory Spec2Isabelle
  imports Complex_Main
begin

section \<open>Text primitives\<close>

text \<open>
  JavaScript strings are modelled as Isabelle strings. A character stands for one code
  unit; case conversion, white space and the word class are those of the ASCII range,
  which is the alphabet of the SQL texts, column names and prompts the program handles.
  Code units outside ASCII are letters of no case, are not white space and are not word
  characters.
\<close>

definition isDigit :: "char \<Rightarrow> bool" where
  "isDigit c = (c \<in> set ''0123456789'')"

definition isUpper :: "char \<Rightarrow> bool" where
  "isUpper c = (c \<in> set ''ABCDEFGHIJKLMNOPQRSTUVWXYZ'')"

definition isLower :: "char \<Rightarrow> bool" where
  "isLower c = (c \<in> set ''abcdefghijklmnopqrstuvwxyz'')"

text \<open>The class \<^verbatim>\<open>\w\<close> of a regular expression.\<close>

definition isWordChar :: "char \<Rightarrow> bool" where
  "isWordChar c = (isLower c \<or> isUpper c \<or> isDigit c \<or> c = CHR ''_'')"

text \<open>The class \<^verbatim>\<open>\s\<close>, which is also what \<^verbatim>\<open>trim\<close> removes: tab, line feed,
  vertical tab, form feed, carriage return and space.\<close>

definition isSpace :: "char \<Rightarrow> bool" where
  "isSpace c = (c \<in> set [CHR 0x09, CHR 0x0A, CHR 0x0B, CHR 0x0C, CHR 0x0D, CHR '' ''])"

definition toLowerChar :: "char \<Rightarrow> char" where
  "toLowerChar c =
     (case map_of (zip ''ABCDEFGHIJKLMNOPQRSTUVWXYZ'' ''abcdefghijklmnopqrstuvwxyz'') c of
        Some d \<Rightarrow> d
      | None \<Rightarrow> c)"

definition toUpperChar :: "char \<Rightarrow> char" where
  "toUpperChar c =
     (case map_of (zip ''abcdefghijklmnopqrstuvwxyz'' ''ABCDEFGHIJKLMNOPQRSTUVWXYZ'') c of
        Some d \<Rightarrow> d
      | None \<Rightarrow> c)"

text \<open>The same functions on the bits of a character, for running the definitions.\<close>

lemma isUpper_code [code]:
  "isUpper (Char b0 b1 b2 b3 b4 b5 b6 b7) =
     (\<not> b7 \<and> b6 \<and> \<not> b5 \<and> (b0 \<or> b1 \<or> b2 \<or> b3 \<or> b4) \<and>
      \<not> (b4 \<and> b3 \<and> (b2 \<or> (b1 \<and> b0))))"
  by (cases b7; cases b6; cases b5; simp add: isUpper_def;
      cases b4; cases b3; cases b2; cases b1; cases b0; simp)

lemma isLower_code [code]:
  "isLower (Char b0 b1 b2 b3 b4 b5 b6 b7) =
     (\<not> b7 \<and> b6 \<and> b5 \<and> (b0 \<or> b1 \<or> b2 \<or> b3 \<or> b4) \<and>
      \<not> (b4 \<and> b3 \<and> (b2 \<or> (b1 \<and> b0))))"
  by (cases b7; cases b6; cases b5; simp add: isLower_def;
      cases b4; cases b3; cases b2; cases b1; cases b0; simp)

lemma isDigit_code [code]:
  "isDigit (Char b0 b1 b2 b3 b4 b5 b6 b7) =
     (\<not> b7 \<and> \<not> b6 \<and> b5 \<and> b4 \<and> \<not> (b3 \<and> (b2 \<or> b1)))"
  by (cases b7; cases b6; cases b5; cases b4; simp add: isDigit_def;
      cases b3; cases b2; cases b1; cases b0; simp)

lemma isSpace_code [code]:
  "isSpace (Char b0 b1 b2 b3 b4 b5 b6 b7) =
     (\<not> b7 \<and> \<not> b6 \<and>
      ((\<not> b5 \<and> \<not> b4 \<and> b3 \<and> (b2 \<or> b1 \<or> b0) \<and> \<not> (b2 \<and> b1)) \<or>
       (b5 \<and> \<not> b4 \<and> \<not> b3 \<and> \<not> b2 \<and> \<not> b1 \<and> \<not> b0)))"
  by (cases b7; cases b6; simp add: isSpace_def;
      cases b5; cases b4; cases b3; cases b2; cases b1; cases b0; simp)

lemma toLowerChar_code [code]:
  "toLowerChar (Char b0 b1 b2 b3 b4 b5 b6 b7) =
     (if isUpper (Char b0 b1 b2 b3 b4 b5 b6 b7) then Char b0 b1 b2 b3 b4 True b6 b7
      else Char b0 b1 b2 b3 b4 b5 b6 b7)"
  unfolding isUpper_code
  by (cases b7; cases b6; cases b5; simp add: toLowerChar_def;
      cases b4; cases b3; cases b2; cases b1; cases b0; simp)

lemma toUpperChar_code [code]:
  "toUpperChar (Char b0 b1 b2 b3 b4 b5 b6 b7) =
     (if isLower (Char b0 b1 b2 b3 b4 b5 b6 b7) then Char b0 b1 b2 b3 b4 False b6 b7
      else Char b0 b1 b2 b3 b4 b5 b6 b7)"
  unfolding isLower_code
  by (cases b7; cases b6; cases b5; simp add: toUpperChar_def;
      cases b4; cases b3; cases b2; cases b1; cases b0; simp)

definition toLowerCase :: "string \<Rightarrow> string" where
  "toLowerCase s = map toLowerChar s"

definition toUpperCase :: "string \<Rightarrow> string" where
  "toUpperCase s = map toUpperChar s"

definition trim :: "string \<Rightarrow> string" where
  "trim s = rev (dropWhile isSpace (rev (dropWhile isSpace s)))"

definition startsWith :: "string \<Rightarrow> string \<Rightarrow> bool" where
  "startsWith s p = (take (length p) s = p)"

definition endsWith :: "string \<Rightarrow> string \<Rightarrow> bool" where
  "endsWith s p = startsWith (rev s) (rev p)"

text \<open>\<^verbatim>\<open>s.includes(p)\<close>: \<open>p\<close> occurs in \<open>s\<close> as a contiguous piece.\<close>

fun str_includes :: "string \<Rightarrow> string \<Rightarrow> bool" where
  "str_includes [] p = (p = [])"
| "str_includes (c # cs) p = (startsWith (c # cs) p \<or> str_includes cs p)"

text \<open>\<^verbatim>\<open>s.indexOf(p)\<close>, with \<open>None\<close> for the \<^verbatim>\<open>-1\<close> of JavaScript.\<close>

fun indexOfFrom :: "nat \<Rightarrow> string \<Rightarrow> string \<Rightarrow> nat option" where
  "indexOfFrom i [] p = (if p = [] then Some i else None)"
| "indexOfFrom i (c # cs) p =
     (if startsWith (c # cs) p then Some i else indexOfFrom (Suc i) cs p)"

definition indexOf :: "string \<Rightarrow> string \<Rightarrow> nat option" where
  "indexOf s p = indexOfFrom 0 s p"

section \<open>Regular expressions\<close>

text \<open>
  The regular expressions of the source are terms of the type \<open>regex\<close>, run by a
  backtracking matcher that lists the ways a pattern can match at a position in the
  order in which JavaScript tries them: the left alternative first, the longer
  repetition first. The first entry is the match JavaScript reports.
\<close>

datatype item = IChr char | IRng char char | IDigit | ISpace | IWord

datatype regex =
    Chr char
  | Cls bool "item list"
  | Seq regex regex
  | Alt regex regex
  | Rep nat "nat option" regex
  | Grp nat regex
  | Eps
  | WordB
  | Bol
  | Eol

text \<open>
  \<open>Cls neg its\<close> is a character class (\<open>neg\<close> for \<^verbatim>\<open>[^...]\<close>); \<open>Rep m n r\<close> is the greedy
  repetition \<^verbatim>\<open>r{m,n}\<close>, with \<open>None\<close> for no upper bound; \<open>Grp k r\<close> is the \<open>k\<close>-th
  capturing group; \<open>WordB\<close>, \<open>Bol\<close> and \<open>Eol\<close> are \<^verbatim>\<open>\b\<close>, \<^verbatim>\<open>^\<close> and \<^verbatim>\<open>$\<close>.
  A pattern is a regex with its \<^verbatim>\<open>i\<close> flag.
\<close>

type_synonym pattern = "bool \<times> regex"

text \<open>The state of the matcher: the character before the position (none at the start
  of the text), the text from the position on, and the groups captured so far.\<close>

type_synonym mstate = "char option \<times> string \<times> (nat \<times> string) list"

definition inRange :: "char \<Rightarrow> char \<Rightarrow> char \<Rightarrow> bool" where
  "inRange a b c = (of_char a \<le> (of_char c :: nat) \<and> (of_char c :: nat) \<le> of_char b)"

fun inItem :: "bool \<Rightarrow> char \<Rightarrow> item \<Rightarrow> bool" where
  "inItem ic c (IChr d) = (if ic then toLowerChar c = toLowerChar d else c = d)"
| "inItem ic c (IRng a b) =
     (inRange a b c \<or> (ic \<and> (inRange a b (toLowerChar c) \<or> inRange a b (toUpperChar c))))"
| "inItem ic c IDigit = isDigit c"
| "inItem ic c ISpace = isSpace c"
| "inItem ic c IWord = isWordChar c"

text \<open>Greedy repetition of a matcher \<open>f\<close>. The fourth argument bounds the number of
  rounds; a round past the minimum must consume a character, as in JavaScript.\<close>

primrec rep :: "(mstate \<Rightarrow> mstate list) \<Rightarrow> nat \<Rightarrow> nat option \<Rightarrow> nat \<Rightarrow> mstate \<Rightarrow> mstate list" where
  "rep f mn mx 0 st = (if mn = 0 then [st] else [])"
| "rep f mn mx (Suc k) st =
     (if mx = Some 0 then [st]
      else concat (map (rep f (mn - 1) (map_option (\<lambda>m. m - 1) mx) k)
                    (filter (\<lambda>st'. 0 < mn \<or> length (fst (snd st')) < length (fst (snd st)))
                       (f st)))
           @ (if mn = 0 then [st] else []))"

definition atBoundary :: "char option \<Rightarrow> string \<Rightarrow> bool" where
  "atBoundary p s =
     ((case p of None \<Rightarrow> False | Some c \<Rightarrow> isWordChar c) \<noteq>
      (case s of [] \<Rightarrow> False | c # _ \<Rightarrow> isWordChar c))"

primrec run :: "regex \<Rightarrow> bool \<Rightarrow> mstate \<Rightarrow> mstate list" where
  "run (Chr d) ic st =
     (case fst (snd st) of
        [] \<Rightarrow> []
      | c # cs \<Rightarrow> if inItem ic c (IChr d) then [(Some c, cs, snd (snd st))] else [])"
| "run (Cls neg its) ic st =
     (case fst (snd st) of
        [] \<Rightarrow> []
      | c # cs \<Rightarrow> if list_ex (inItem ic c) its \<noteq> neg then [(Some c, cs, snd (snd st))] else [])"
| "run (Seq r1 r2) ic st = concat (map (run r2 ic) (run r1 ic st))"
| "run (Alt r1 r2) ic st = run r1 ic st @ run r2 ic st"
| "run (Rep mn mx r) ic st = rep (run r ic) mn mx (length (fst (snd st)) + mn) st"
| "run (Grp n r) ic st =
     map (\<lambda>st'. (fst st', fst (snd st'),
                 (n, take (length (fst (snd st)) - length (fst (snd st'))) (fst (snd st)))
                   # snd (snd st')))
       (run r ic st)"
| "run Eps ic st = [st]"
| "run WordB ic st = (if atBoundary (fst st) (fst (snd st)) then [st] else [])"
| "run Bol ic st = (if fst st = None then [st] else [])"
| "run Eol ic st = (if fst (snd st) = [] then [st] else [])"

text \<open>A literal piece of text, a choice between several expressions, and the usual
  quantifiers.\<close>

definition Str :: "string \<Rightarrow> regex" where
  "Str s = foldr (\<lambda>c r. Seq (Chr c) r) s Eps"

fun alts :: "regex list \<Rightarrow> regex" where
  "alts [] = Cls False []"
| "alts [r] = r"
| "alts (r # rs) = Alt r (alts rs)"

fun seqs :: "regex list \<Rightarrow> regex" where
  "seqs [] = Eps"
| "seqs [r] = r"
| "seqs (r # rs) = Seq r (seqs rs)"

definition Plus :: "regex \<Rightarrow> regex" where
  "Plus r = Rep 1 None r"

definition Star :: "regex \<Rightarrow> regex" where
  "Star r = Rep 0 None r"

definition Opt :: "regex \<Rightarrow> regex" where
  "Opt r = Rep 0 (Some 1) r"

definition Digits :: "nat \<Rightarrow> regex" where
  "Digits n = Rep n (Some n) (Cls False [IDigit])"

definition Spaces :: regex where
  "Spaces = Plus (Cls False [ISpace])"

text \<open>A match as JavaScript reports it: the index, the matched text (\<^verbatim>\<open>match[0]\<close>) and
  the groups that took part.\<close>

record jsmatch =
  index :: nat
  whole :: string
  groups :: "(nat \<times> string) list"

text \<open>\<open>grp m k\<close> is \<^verbatim>\<open>match[k]\<close>, with \<open>None\<close> for \<^verbatim>\<open>undefined\<close>.\<close>

definition grp :: "jsmatch \<Rightarrow> nat \<Rightarrow> string option" where
  "grp m k = (if k = 0 then Some (whole m) else map_of (groups m) k)"

fun searchFrom :: "pattern \<Rightarrow> char option \<Rightarrow> string \<Rightarrow> nat \<Rightarrow> jsmatch option" where
  "searchFrom pat p [] i =
     (case run (snd pat) (fst pat) (p, [], []) of
        st # _ \<Rightarrow> Some \<lparr>index = i, whole = [], groups = snd (snd st)\<rparr>
      | [] \<Rightarrow> None)"
| "searchFrom pat p (c # cs) i =
     (case run (snd pat) (fst pat) (p, c # cs, []) of
        st # _ \<Rightarrow> Some \<lparr>index = i,
                         whole = take (length (c # cs) - length (fst (snd st))) (c # cs),
                         groups = snd (snd st)\<rparr>
      | [] \<Rightarrow> searchFrom pat (Some c) cs (Suc i))"

text \<open>\<^verbatim>\<open>s.match(re)\<close> for an expression without the \<^verbatim>\<open>g\<close> flag, and \<^verbatim>\<open>re.test(s)\<close>.\<close>

definition match :: "string \<Rightarrow> pattern \<Rightarrow> jsmatch option" where
  "match s pat = searchFrom pat None s 0"

definition test :: "pattern \<Rightarrow> string \<Rightarrow> bool" where
  "test pat s = (match s pat \<noteq> None)"

text \<open>\<^verbatim>\<open>s.match(re)\<close> for an expression with the \<^verbatim>\<open>g\<close> flag: the matched texts from left
  to right, each search starting where the match before it ended (one character on
  after an empty match). The third argument counts the characters of the current
  match that are still to be passed over.\<close>

fun matchAllFrom :: "pattern \<Rightarrow> char option \<Rightarrow> nat \<Rightarrow> string \<Rightarrow> string list" where
  "matchAllFrom pat p k [] =
     (if k = 0 \<and> run (snd pat) (fst pat) (p, [], []) \<noteq> [] then [[]] else [])"
| "matchAllFrom pat p (Suc k) (c # cs) = matchAllFrom pat (Some c) k cs"
| "matchAllFrom pat p 0 (c # cs) =
     (case run (snd pat) (fst pat) (p, c # cs, []) of
        st # _ \<Rightarrow>
          (let n = length (c # cs) - length (fst (snd st))
           in take n (c # cs) # matchAllFrom pat (Some c) (n - 1) cs)
      | [] \<Rightarrow> matchAllFrom pat (Some c) 0 cs)"

definition matchAll :: "string \<Rightarrow> pattern \<Rightarrow> string list" where
  "matchAll s pat = matchAllFrom pat None 0 s"

text \<open>\<^verbatim>\<open>s.replace(re, repl)\<close> for an expression with the \<^verbatim>\<open>g\<close> flag and a fixed replacement
  text: every match, found as by \<open>matchAll\<close>, is replaced.\<close>

fun replaceAllFrom :: "pattern \<Rightarrow> string \<Rightarrow> char option \<Rightarrow> nat \<Rightarrow> string \<Rightarrow> string" where
  "replaceAllFrom pat repl p k [] =
     (if k = 0 \<and> run (snd pat) (fst pat) (p, [], []) \<noteq> [] then repl else [])"
| "replaceAllFrom pat repl p (Suc k) (c # cs) = replaceAllFrom pat repl (Some c) k cs"
| "replaceAllFrom pat repl p 0 (c # cs) =
     (case run (snd pat) (fst pat) (p, c # cs, []) of
        st # _ \<Rightarrow>
          (let n = length (c # cs) - length (fst (snd st))
           in if n = 0 then repl @ c # replaceAllFrom pat repl (Some c) 0 cs
              else repl @ replaceAllFrom pat repl (Some c) (n - 1) cs)
      | [] \<Rightarrow> c # replaceAllFrom pat repl (Some c) 0 cs)"

definition replaceAll :: "string \<Rightarrow> pattern \<Rightarrow> string \<Rightarrow> string" where
  "replaceAll s pat repl = replaceAllFrom pat repl None 0 s"

section \<open>The safety validators\<close>

subsection \<open>\<^verbatim>\<open>isSafeSelect\<close> (the request handler's check)\<close>

definition forbiddenKeywords :: "string list" where
  "forbiddenKeywords =
     [''insert '', ''update '', ''delete '', ''drop '', ''alter '',
      ''create '', ''truncate '', ''exec '', ''merge '', ''grant '', ''revoke '']"

text \<open>\<open>semicolonCount\<close> is \<^verbatim>\<open>(lowered.match(/;/g) || []).length\<close>.\<close>

definition semicolonPattern :: pattern where
  "semicolonPattern = (False, Chr CHR '';'')"

definition semicolonCount :: "string \<Rightarrow> nat" where
  "semicolonCount s = length (matchAll s semicolonPattern)"

definition isSafeSelect :: "string \<Rightarrow> bool" where
  "isSafeSelect sqlText =
     (if sqlText = [] then False
      else
        let lowered = toLowerCase (trim sqlText) in
        if semicolonCount lowered > 1 \<or> (semicolonCount lowered = 1 \<and> \<not> endsWith lowered '';'')
        then False
        else if \<not> (startsWith lowered ''select'' \<or> startsWith lowered ''with'') then False
        else if list_ex (\<lambda>kw. str_includes lowered kw) forbiddenKeywords then False
        else True)"

subsection \<open>\<^verbatim>\<open>validateSqlSafety\<close> (the generator's check)\<close>

definition wholeWord :: "string \<Rightarrow> regex" where
  "wholeWord w = Seq WordB (Seq (Str w) WordB)"

definition forbiddenPatterns :: "regex list" where
  "forbiddenPatterns =
     [wholeWord ''INSERT'', wholeWord ''UPDATE'', wholeWord ''DELETE'', wholeWord ''DROP'',
      wholeWord ''ALTER'', wholeWord ''CREATE'', wholeWord ''TRUNCATE'', wholeWord ''EXEC'',
      wholeWord ''EXECUTE'', Str ''--'', Str '';--'']"

definition validateSqlSafety :: "string \<Rightarrow> bool" where
  "validateSqlSafety sqlText =
     (if sqlText = [] then False
      else
        let s = trim sqlText in
        if \<not> test (True, Seq Bol (Seq (Grp 1 (Alt (Str ''SELECT'') (Str ''WITH''))) WordB)) s
        then False
        else if list_ex (\<lambda>p. test (True, p) s) forbiddenPatterns then False
        else if test (True, wholeWord ''xp_cmdshell'') s \<or> test (True, Seq WordB (Str ''sp_'')) s
        then False
        else if length s > 20000 then False
        else True)"

subsection \<open>\<^verbatim>\<open>validateAndCleanSql\<close>\<close>

definition fallbackSql :: string where
  "fallbackSql = ''SELECT TOP (0) * FROM SalesReport_Form_Input''"

text \<open>The code fence of \<^verbatim>\<open>sql.replace(/```[\w]*\n?/g, '')\<close>.\<close>

definition fencePattern :: pattern where
  "fencePattern = (False, seqs [Str ''```'', Star (Cls False [IWord]), Opt (Chr (CHR 0x0A))])"

text \<open>
  The same removal as a recursion of its own, for the proofs: scanning from the left,
  every three backquotes are deleted together with the word characters that follow
  them and one line feed after those, if there is one. It is shown below to be what
  the replacement with \<open>fencePattern\<close> computes.
\<close>

definition dropNewline :: "string \<Rightarrow> string" where
  "dropNewline s = (case s of [] \<Rightarrow> [] | c # cs \<Rightarrow> if c = CHR 0x0A then cs else c # cs)"

function stripFences :: "string \<Rightarrow> string" where
  "stripFences [] = []"
| "stripFences (c # cs) =
     (if startsWith (c # cs) ''```''
      then stripFences (dropNewline (dropWhile isWordChar (drop 3 (c # cs))))
      else c # stripFences cs)"
  by pat_completeness auto

lemma length_dropNewline: "length (dropNewline s) \<le> length s"
  by (cases s) (simp_all add: dropNewline_def)

lemma length_after_fence:
  "length (dropNewline (dropWhile isWordChar (drop n cs))) < Suc (length cs)"
proof -
  have "length (dropNewline (dropWhile isWordChar (drop n cs)))
        \<le> length (dropWhile isWordChar (drop n cs))"
    by (rule length_dropNewline)
  also have "\<dots> \<le> length (drop n cs)"
    by (rule length_dropWhile_le)
  also have "\<dots> < Suc (length cs)"
    by simp
  finally show ?thesis .
qed

termination stripFences
  by (relation "measure length") (simp_all add: length_after_fence)

definition dangerousKeywords :: "string list" where
  "dangerousKeywords =
     [''DROP'', ''DELETE'', ''UPDATE'', ''INSERT'', ''ALTER'', ''CREATE'', ''TRUNCATE'']"

text \<open>The first argument is \<open>None\<close> when the caller passes \<^verbatim>\<open>undefined\<close> or \<^verbatim>\<open>null\<close>; the
  second argument is not used by the source.\<close>

definition validateAndCleanSql :: "string option \<Rightarrow> string \<Rightarrow> string" where
  "validateAndCleanSql sql expectedTable =
     (case sql of
        None \<Rightarrow> fallbackSql
      | Some s0 \<Rightarrow>
          if s0 = [] then fallbackSql
          else
            let s = trim (replaceAll s0 fencePattern []) in
            if \<not> startsWith (toUpperCase s) ''SELECT'' \<and> \<not> startsWith (toUpperCase s) ''WITH''
            then fallbackSql
            else if list_ex (\<lambda>keyword. str_includes (toUpperCase s) ('' '' @ keyword @ '' ''))
                      dangerousKeywords
            then fallbackSql
            else s)"

section \<open>The prompt analyzer\<close>

subsection \<open>Configuration tables\<close>

text \<open>A table or column entry lists its detection patterns, or has none (\<open>None\<close> for
  a missing \<^verbatim>\<open>patterns\<close> property).\<close>

record tableConfig =
  tc_table :: string
  tc_synonyms :: "string list"
  tc_description :: string
  tc_patterns :: "pattern list option"

text \<open>\<open>twoWords a b\<close> is the expression \<^verbatim>\<open>a\s+b\<close>.\<close>

definition twoWords :: "string \<Rightarrow> string \<Rightarrow> regex" where
  "twoWords a b = seqs [Str a, Spaces, Str b]"

definition TABLE_MAPPINGS :: "(string \<times> tableConfig) list" where
  "TABLE_MAPPINGS =
     [(''sales'',
       \<lparr>tc_table = ''SalesReport_Form_Input'',
        tc_synonyms = [''sales'', ''sale'', ''sold'', ''deal'', ''deals'', ''transaction'',
                       ''revenue'', ''gross'', ''purchase''],
        tc_description = ''Sales data including deals, costs, and dealership information'',
        tc_patterns = Some
          [(True, seqs [Str ''sales'', Spaces, Str ''by'', Spaces]),
           (True, seqs [Str ''sales'', Spaces, Str ''for'', Spaces]),
           (True, seqs [Str ''deals'', Spaces, Str ''by'', Spaces]),
           (True, twoWords ''count'' ''deals''),
           (True, twoWords ''count'' ''sales'')]\<rparr>),
      (''inventory'',
       \<lparr>tc_table = ''Common_Group_401_Vehicle_Inventory'',
        tc_synonyms = [''inventory'', ''stock'', ''vehicles'', ''available'', ''on hand''],
        tc_description = ''Vehicle inventory data'',
        tc_patterns = None\<rparr>),
      (''rvac'',
       \<lparr>tc_table = ''SaleWarranty_RVAC_CONTRACTS'',
        tc_synonyms = [''rvac'', ''warranty'', ''contract'', ''service contract'',
                       ''extended warranty''],
        tc_description = ''RVAC warranty contracts'',
        tc_patterns = None\<rparr>)]"

record columnConfig =
  cc_column :: string
  cc_operator :: "string option"
  cc_function :: "string option"
  cc_related :: "string option"
  cc_synonyms :: "string list"
  cc_patterns :: "pattern list option"

definition monthNames :: "string list" where
  "monthNames =
     [''january'', ''february'', ''march'', ''april'', ''may'', ''june'', ''july'',
      ''august'', ''september'', ''october'', ''november'', ''december'']"

text \<open>\<^verbatim>\<open>january|february|...|december\<close>, \<^verbatim>\<open>\b(20\d{2})\b\<close>, and the optional
  ordinal ending \<^verbatim>\<open>(?:st|nd|rd|th)?\<close>.\<close>

definition monthAlt :: regex where
  "monthAlt = alts (map Str monthNames)"

definition year20 :: regex where
  "year20 = seqs [WordB, Grp 1 (Seq (Str ''20'') (Digits 2)), WordB]"

definition ordinalOpt :: regex where
  "ordinalOpt = Opt (alts [Str ''st'', Str ''nd'', Str ''rd'', Str ''th''])"

definition COLUMN_MAPPINGS :: "(string \<times> columnConfig) list" where
  "COLUMN_MAPPINGS =
     [(''dealership'',
       \<lparr>cc_column = ''DEALER_LOCATION'', cc_operator = Some ''='', cc_function = None,
        cc_related = None,
        cc_synonyms = [''dealership'', ''dealer'', ''location'', ''store'', ''branch'',
                       ''by location'', ''per location''],
        cc_patterns = Some
          [(True, twoWords ''by'' ''location''), (True, twoWords ''per'' ''location''),
           (True, twoWords ''location'' ''wise'')]\<rparr>),
      (''gross'',
       \<lparr>cc_column = ''TOTAL_COST'', cc_operator = None, cc_function = Some ''SUM'',
        cc_related = None,
        cc_synonyms = [''gross'', ''total cost'', ''revenue'', ''amount'', ''price'', ''cost'',
                       ''total'', ''total gross''],
        cc_patterns = Some
          [(True, twoWords ''total'' ''cost''), (True, twoWords ''total'' ''gross'')]\<rparr>),
      (''front_gross'',
       \<lparr>cc_column = ''FRONT_COST'', cc_operator = None, cc_function = Some ''SUM'',
        cc_related = None,
        cc_synonyms = [''front gross'', ''front cost'', ''front'', ''front profit'',
                       ''front margin''],
        cc_patterns = Some
          [(True, twoWords ''front'' ''gross''), (True, twoWords ''front'' ''cost'')]\<rparr>),
      (''fi_gross'',
       \<lparr>cc_column = ''FI_COST'', cc_operator = None, cc_function = Some ''SUM'',
        cc_related = None,
        cc_synonyms = [''fi gross'', ''fi cost'', ''finance income'', ''fi income'',
                       ''finance gross'', ''backend gross''],
        cc_patterns = Some
          [(True, twoWords ''fi'' ''gross''), (True, twoWords ''fi'' ''cost''),
           (True, twoWords ''finance'' ''income'')]\<rparr>),
      (''count'',
       \<lparr>cc_column = ''ID'', cc_operator = None, cc_function = Some ''COUNT'',
        cc_related = None,
        cc_synonyms = [''count'', ''number'', ''how many'', ''total deals'', ''total sales''],
        cc_patterns = Some
          [(True, Str ''count''), (True, Str ''number of''), (True, Str ''how many'')]\<rparr>),
      (''month'',
       \<lparr>cc_column = ''MONTH_REPORTED'', cc_operator = None, cc_function = None,
        cc_related = Some ''YEAR_REPORTED'',
        cc_synonyms = [''month'', ''monthly'', ''last month'', ''this month'', ''mtd'',
                       ''january'', ''february'', ''march'', ''april'', ''may'', ''june'',
                       ''july'', ''august'', ''september'', ''october'', ''november'',
                       ''december''],
        cc_patterns = Some [(True, Grp 1 monthAlt)]\<rparr>),
      (''year'',
       \<lparr>cc_column = ''YEAR_REPORTED'', cc_operator = None, cc_function = None,
        cc_related = None,
        cc_synonyms = [''year'', ''yearly'', ''annual'', ''last year'', ''this year'', ''ytd'',
                       ''year to date''],
        cc_patterns = Some
          [(False, year20),
           (False, seqs [WordB, Grp 1 (Seq (Str ''19'') (Digits 2)), WordB]),
           (True, Str ''year''), (True, Str ''ytd''), (True, Str ''annual'')]\<rparr>),
      (''quarter'',
       \<lparr>cc_column = ''DATEPART(QUARTER, DATE_REPORTED)'', cc_operator = None,
        cc_function = None, cc_related = None,
        cc_synonyms = [''quarter'', ''quarterly'', ''q1'', ''q2'', ''q3'', ''q4''],
        cc_patterns = Some
          [(True, Seq (Chr CHR ''q'') (Cls False [IRng CHR ''1'' CHR ''4''])),
           (True, Str ''quarter''), (True, Str ''quarterly'')]\<rparr>),
      (''day'',
       \<lparr>cc_column = ''DATE_REPORTED'', cc_operator = None, cc_function = None,
        cc_related = None,
        cc_synonyms = [''day'', ''daily'', ''today'', ''yesterday'', ''date'', ''specific date'',
                       ''day before yesterday''],
        cc_patterns = Some
          [(True, Str ''today''), (True, Str ''yesterday''),
           (True, Str ''day before yesterday''),
           (True, seqs [WordB, Plus (Cls False [IWord]), Spaces,
                        Rep 1 (Some 2) (Cls False [IDigit]), ordinalOpt, Chr CHR '','',
                        Spaces, Digits 4, WordB]),
           (True, Str ''daily'')]\<rparr>),
      (''week'',
       \<lparr>cc_column = ''DATE_REPORTED'', cc_operator = None, cc_function = None,
        cc_related = None,
        cc_synonyms = [''week'', ''weekly'', ''this week'', ''last week'', ''week to date''],
        cc_patterns = Some [(True, Str ''week''), (True, Str ''weekly'')]\<rparr>)]"

subsection \<open>Small helpers of the handlers\<close>

text \<open>\<open>quoted s\<close> is \<open>s\<close> between single quotes, as the SQL conditions embed values.\<close>

definition quoted :: "string \<Rightarrow> string" where
  "quoted s = [CHR 0x27] @ s @ [CHR 0x27]"

text \<open>\<^verbatim>\<open>s.charAt(0).toUpperCase() + s.slice(1).toLowerCase()\<close> and
  \<^verbatim>\<open>s.charAt(0).toUpperCase() + s.slice(1)\<close>.\<close>

definition capitalizeLower :: "string \<Rightarrow> string" where
  "capitalizeLower s = toUpperCase (take 1 s) @ toLowerCase (drop 1 s)"

definition capitalize :: "string \<Rightarrow> string" where
  "capitalize s = toUpperCase (take 1 s) @ drop 1 s"

text \<open>The text of a group that a handler reads. Every group read by a handler takes
  part in every match of the handler's rule, so the empty text for an absent group is
  never used.\<close>

definition grpText :: "jsmatch \<Rightarrow> nat \<Rightarrow> string" where
  "grpText m k = (case grp m k of Some s \<Rightarrow> s | None \<Rightarrow> [])"

text \<open>Decimal numerals: \<^verbatim>\<open>parseInt(s, 10)\<close> on a run of digits, \<^verbatim>\<open>n.toString()\<close> and
  \<^verbatim>\<open>s.padStart(2, '0')\<close>.\<close>

definition digitValue :: "char \<Rightarrow> nat" where
  "digitValue c = (case map_of (zip ''0123456789'' [0, 1, 2, 3, 4, 5, 6, 7, 8, 9]) c of
      Some d \<Rightarrow> d | None \<Rightarrow> 0)"

definition parseInt :: "string \<Rightarrow> nat" where
  "parseInt s = foldl (\<lambda>a c. 10 * a + digitValue c) 0 s"

fun numToString :: "nat \<Rightarrow> string" where
  "numToString n =
     (if n < 10 then [''0123456789'' ! n]
      else numToString (n div 10) @ [''0123456789'' ! (n mod 10)])"

definition padStart2 :: "string \<Rightarrow> string" where
  "padStart2 s = replicate (2 - length s) CHR ''0'' @ s"

text \<open>\<^verbatim>\<open>new Date(name + ' 1').getMonth() + 1\<close> for the name of a month, in any case of
  letters: the number of the month.\<close>

fun positionIn :: "string list \<Rightarrow> string \<Rightarrow> nat" where
  "positionIn [] x = 0"
| "positionIn (y # ys) x = (if x = y then 1 else if positionIn ys x = 0 then 0
                            else Suc (positionIn ys x))"

definition monthNumber :: "string \<Rightarrow> nat" where
  "monthNumber name = positionIn monthNames (toLowerCase name)"

definition isoDate :: "string \<Rightarrow> nat \<Rightarrow> nat \<Rightarrow> string" where
  "isoDate year monthNum day =
     year @ ''-'' @ padStart2 (numToString monthNum) @ ''-'' @ padStart2 (numToString day)"

subsection \<open>Time ranges\<close>

text \<open>The value a rule's handler builds. The JavaScript objects carry the fields named
  here and no tag; the constructor records which rule built the object.\<close>

datatype timeRange =
    SpecificMonthYear string string string
  | RelativeMonth string string
  | SpecificYear string string
  | QuarterYear string string string
  | SpecificDate string string
  | Ytd string
  | Mtd string
  | RelativeYear string string
  | RelativeQuarter string string
  | Today string
  | Yesterday string
  | DayBeforeYesterday string
  | ThisWeek string
  | LastWeek string
  | Last7Days string
  | Last30Days string
  | CustomRange string string string

text \<open>
  The arguments are, in this order: for \<open>SpecificMonthYear\<close> the fields \<^verbatim>\<open>year\<close>, \<^verbatim>\<open>month\<close>
  and \<^verbatim>\<open>sqlCondition\<close>; for \<open>RelativeMonth\<close>, \<open>RelativeYear\<close> and \<open>RelativeQuarter\<close>
  the fields \<^verbatim>\<open>relative\<close> and \<^verbatim>\<open>sqlCondition\<close>; for \<open>SpecificYear\<close> the fields \<^verbatim>\<open>year\<close>
  and \<^verbatim>\<open>sqlCondition\<close>; for \<open>QuarterYear\<close> the fields \<^verbatim>\<open>quarter\<close>, \<^verbatim>\<open>year\<close> and
  \<^verbatim>\<open>sqlCondition\<close>; for \<open>SpecificDate\<close> the fields \<^verbatim>\<open>date\<close> and \<^verbatim>\<open>sqlCondition\<close>; for
  \<open>CustomRange\<close> the fields \<^verbatim>\<open>start\<close>, \<^verbatim>\<open>end\<close> and \<^verbatim>\<open>sqlCondition\<close>; for the others the
  field \<^verbatim>\<open>sqlCondition\<close> alone.
\<close>

definition showOffset :: "int \<Rightarrow> string" where
  "showOffset k = (if k < 0 then ''-'' @ numToString (nat (- k)) else numToString (nat k))"

definition relAlt :: regex where
  "relAlt = alts [Str ''last'', Str ''this'', Str ''next'']"

text \<open>\<^verbatim>\<open>(january|...)\s+(\d{1,2})(?:st|nd|rd|th)?\<close> with the groups numbered from \<open>k\<close>.\<close>

definition monthDay :: "nat \<Rightarrow> regex" where
  "monthDay k =
     seqs [Grp k monthAlt, Spaces, Grp (Suc k) (Rep 1 (Some 2) (Cls False [IDigit])),
           ordinalOpt]"

definition timeRules :: "(pattern \<times> (jsmatch \<Rightarrow> timeRange)) list" where
  "timeRules =
     [((True, seqs [Grp 1 (Digits 4), Spaces, Grp 2 monthAlt]),
       \<lambda>m. SpecificMonthYear (grpText m 1) (toLowerCase (grpText m 2))
              (''MONTH_REPORTED = '' @ quoted (capitalizeLower (grpText m 2)) @
               '' AND YEAR_REPORTED = '' @ quoted (grpText m 1))),
      ((True, seqs [Grp 1 relAlt, Spaces, Str ''month'']),
       \<lambda>m. let month = toLowerCase (grpText m 1) in
            RelativeMonth month
              (if month = ''last''
               then ''MONTH_REPORTED = DATENAME(MONTH, DATEADD(MONTH, -1, GETDATE())) AND YEAR_REPORTED = YEAR(DATEADD(MONTH, -1, GETDATE()))''
               else ''MONTH_REPORTED = DATENAME(MONTH, GETDATE()) AND YEAR_REPORTED = YEAR(GETDATE())'')),
      ((False, year20),
       \<lambda>m. SpecificYear (whole m) (''YEAR_REPORTED = '' @ quoted (whole m))),
      ((True, seqs [Chr CHR ''q'', Grp 1 (Cls False [IRng CHR ''1'' CHR ''4'']), Spaces,
                    Grp 2 (Digits 4)]),
       \<lambda>m. QuarterYear (grpText m 1) (grpText m 2)
              (''DATEPART(QUARTER, DATE_REPORTED) = '' @ grpText m 1 @
               '' AND YEAR(DATE_REPORTED) = '' @ grpText m 2)),
      ((True, seqs [monthDay 1, Chr CHR '','', Spaces, Grp 3 (Digits 4)]),
       \<lambda>m. let dateStr = isoDate (grpText m 3) (monthNumber (grpText m 1))
                             (parseInt (grpText m 2)) in
            SpecificDate dateStr (''CAST(DATE_REPORTED AS DATE) = '' @ quoted dateStr)),
      ((True, Grp 1 (alts [Str ''ytd'', Str ''year to date'', Str ''this year so far''])),
       \<lambda>m. Ytd ''DATE_REPORTED >= DATEFROMPARTS(YEAR(GETDATE()), 1, 1) AND DATE_REPORTED <= GETDATE()''),
      ((True, Grp 1 (alts [Str ''mtd'', Str ''month to date'', Str ''this month so far''])),
       \<lambda>m. Mtd ''DATE_REPORTED >= DATEFROMPARTS(YEAR(GETDATE()), MONTH(GETDATE()), 1) AND DATE_REPORTED <= GETDATE()''),
      ((True, seqs [Grp 1 relAlt, Spaces, Str ''year'']),
       \<lambda>m. let rel = toLowerCase (grpText m 1);
                offset = (if rel = ''last'' then - 1 else if rel = ''next'' then 1 else 0) in
            RelativeYear rel
              (''YEAR_REPORTED = YEAR(DATEADD(YEAR, '' @ showOffset offset @ '', GETDATE()))'')),
      ((True, seqs [Grp 1 (alts [Str ''last'', Str ''this'']), Spaces, Str ''quarter'']),
       \<lambda>m. let rel = toLowerCase (grpText m 1);
                offset = (if rel = ''last'' then - 1 else 0) in
            RelativeQuarter rel
              (''DATEPART(QUARTER, DATE_REPORTED) = DATEPART(QUARTER, DATEADD(QUARTER, '' @
               showOffset offset @
               '', GETDATE())) AND YEAR(DATE_REPORTED) = YEAR(DATEADD(QUARTER, '' @
               showOffset offset @ '', GETDATE()))'')),
      ((True, Str ''today''),
       \<lambda>m. Today ''CAST(DATE_REPORTED AS DATE) = CAST(GETDATE() AS DATE)''),
      ((True, Str ''yesterday''),
       \<lambda>m. Yesterday ''CAST(DATE_REPORTED AS DATE) = CAST(DATEADD(DAY, -1, GETDATE()) AS DATE)''),
      ((True, Str ''day before yesterday''),
       \<lambda>m. DayBeforeYesterday
              ''CAST(DATE_REPORTED AS DATE) = CAST(DATEADD(DAY, -2, GETDATE()) AS DATE)''),
      ((True, Str ''this week''),
       \<lambda>m. ThisWeek ''DATE_REPORTED >= DATEADD(DAY, 1 - DATEPART(WEEKDAY, GETDATE()), CAST(GETDATE() AS DATE)) AND DATE_REPORTED < DATEADD(DAY, 8 - DATEPART(WEEKDAY, GETDATE()), CAST(GETDATE() AS DATE))''),
      ((True, Str ''last week''),
       \<lambda>m. LastWeek ''DATE_REPORTED >= DATEADD(DAY, 1 - DATEPART(WEEKDAY, DATEADD(DAY, -7, GETDATE())), CAST(DATEADD(DAY, -7, GETDATE()) AS DATE)) AND DATE_REPORTED < DATEADD(DAY, 8 - DATEPART(WEEKDAY, DATEADD(DAY, -7, GETDATE())), CAST(DATEADD(DAY, -7, GETDATE()) AS DATE))''),
      ((True, Alt (Str ''last 7 days'') (Str ''past week'')),
       \<lambda>m. Last7Days
              ''DATE_REPORTED >= DATEADD(DAY, -7, GETDATE()) AND DATE_REPORTED < GETDATE()''),
      ((True, Alt (Str ''last 30 days'') (Str ''past month'')),
       \<lambda>m. Last30Days
              ''DATE_REPORTED >= DATEADD(DAY, -30, GETDATE()) AND DATE_REPORTED < GETDATE()''),
      ((True, seqs [Str ''from'', Spaces, monthDay 1, Spaces, Str ''to'', Spaces, monthDay 3,
                    Spaces, Grp 5 (Digits 4)]),
       \<lambda>m. let startDate = isoDate (grpText m 5) (monthNumber (grpText m 1))
                               (parseInt (grpText m 2));
                endDate = isoDate (grpText m 5) (monthNumber (grpText m 3))
                             (parseInt (grpText m 4)) in
            CustomRange startDate endDate
              (''CAST(DATE_REPORTED AS DATE) BETWEEN '' @ quoted startDate @ '' AND '' @
               quoted endDate))]"

text \<open>The loop over the rules: the handler of the first rule that matches builds the
  result; \<open>None\<close> is the \<^verbatim>\<open>null\<close> returned when no rule matches.\<close>

fun firstRule :: "(pattern \<times> (jsmatch \<Rightarrow> 'a)) list \<Rightarrow> string \<Rightarrow> 'a option" where
  "firstRule [] prompt = None"
| "firstRule ((re, handler) # rules) prompt =
     (case match prompt re of
        Some m \<Rightarrow> Some (handler m)
      | None \<Rightarrow> firstRule rules prompt)"

definition detectTimeRangeEnhanced :: "string \<Rightarrow> timeRange option" where
  "detectTimeRangeEnhanced prompt = firstRule timeRules prompt"

subsection \<open>Aliases and grouping\<close>

definition getAggregateAlias :: "string \<Rightarrow> string" where
  "getAggregateAlias concept =
     (case map_of [(''count'', ''TotalDeals''), (''gross'', ''TotalGross''),
                   (''front_gross'', ''FrontGross''), (''fi_gross'', ''FIGross''),
                   (''total_cost'', ''TotalCost'')] concept of
        Some a \<Rightarrow> a
      | None \<Rightarrow> capitalize concept)"

definition groupPatterns :: "(pattern \<times> string) list" where
  "groupPatterns =
     [((True, twoWords ''by'' ''location''), ''DEALER_LOCATION''),
      ((True, twoWords ''by'' ''month''), ''MONTH_REPORTED''),
      ((True, twoWords ''by'' ''year''), ''YEAR_REPORTED''),
      ((True, twoWords ''by'' ''dealer''), ''DEALER_LOCATION''),
      ((True, twoWords ''per'' ''location''), ''DEALER_LOCATION''),
      ((True, twoWords ''by'' ''quarter''), ''DATEPART(QUARTER, DATE_REPORTED)''),
      ((True, twoWords ''by'' ''week''), ''DATEPART(WEEK, DATE_REPORTED)''),
      ((True, twoWords ''by'' ''day''), ''CAST(DATE_REPORTED AS DATE)'')]"

fun firstGroup :: "(pattern \<times> string) list \<Rightarrow> string \<Rightarrow> string option" where
  "firstGroup [] s = None"
| "firstGroup ((pat, col) # gps) s = (if test pat s then Some col else firstGroup gps s)"

definition detectGroupBy :: "string \<Rightarrow> string option" where
  "detectGroupBy prompt =
     (let promptLower = toLowerCase prompt in
      case firstGroup groupPatterns promptLower of
        Some col \<Rightarrow> Some col
      | None \<Rightarrow>
          if str_includes promptLower ''by location'' \<or> str_includes promptLower ''per location''
          then Some ''DEALER_LOCATION''
          else None)"

subsection \<open>Extracting a value for a filter\<close>

text \<open>\<^verbatim>\<open>s.split(/\s+/)\<close>: the pieces of \<open>s\<close> between runs of white space.\<close>

function splitSpaces :: "string \<Rightarrow> string list" where
  "splitSpaces s =
     (let w = takeWhile (\<lambda>c. \<not> isSpace c) s;
          r = dropWhile (\<lambda>c. \<not> isSpace c) s
      in if r = [] then [w] else w # splitSpaces (dropWhile isSpace r))"
  by pat_completeness auto

lemma length_dropWhile_space:
  assumes "dropWhile (\<lambda>c. \<not> isSpace c) s \<noteq> []"
  shows "length (dropWhile isSpace (dropWhile (\<lambda>c. \<not> isSpace c) s)) < length s"
proof -
  let ?r = "dropWhile (\<lambda>c. \<not> isSpace c) s"
  from assms obtain c cs where r: "?r = c # cs" by (cases ?r) auto
  then have "isSpace c" using hd_dropWhile [of "\<lambda>c. \<not> isSpace c" s] by auto
  with r have "dropWhile isSpace ?r = dropWhile isSpace cs" by simp
  then have "length (dropWhile isSpace ?r) \<le> length cs" by (simp add: length_dropWhile_le)
  also have "\<dots> < length ?r" using r by simp
  also have "\<dots> \<le> length s" by (rule length_dropWhile_le)
  finally show ?thesis .
qed

termination splitSpaces
  by (relation "measure length") (simp_all add: length_dropWhile_space)

definition stopWords :: "string list" where
  "stopWords = [''for'', ''in'', ''by'', ''with'', ''and'', ''the'', ''a'', ''an'']"

definition quotedValue :: regex where
  "quotedValue =
     Alt (seqs [Chr (CHR 0x22), Grp 1 (Plus (Cls True [IChr (CHR 0x22)])), Chr (CHR 0x22)])
         (seqs [Chr (CHR 0x27), Grp 2 (Plus (Cls True [IChr (CHR 0x27)])), Chr (CHR 0x27)])"

text \<open>The third argument is \<open>None\<close> for the default \<^verbatim>\<open>null\<close> of \<^verbatim>\<open>matchedPattern\<close>; the
  result is \<open>None\<close> for \<^verbatim>\<open>null\<close>. The steps are those of the source, each returning
  when it finds a value.\<close>

definition fromMatchedPattern :: "string \<Rightarrow> string option \<Rightarrow> string option" where
  "fromMatchedPattern keywordLower matchedPattern =
     (case matchedPattern of
        None \<Rightarrow> None
      | Some mp \<Rightarrow>
          if mp = [] then None
          else
            let yearMatch = match mp (False, year20);
                monthMatch = match mp (True, Grp 1 monthAlt)
            in if keywordLower = ''year'' \<and> yearMatch \<noteq> None
               then map_option whole yearMatch
               else if keywordLower = ''month'' \<and> monthMatch \<noteq> None
               then map_option whole monthMatch
               else None)"

definition afterKeyword :: "string \<Rightarrow> string \<Rightarrow> string option" where
  "afterKeyword prompt keyword =
     (let promptLower = toLowerCase prompt; keywordLower = toLowerCase keyword in
      case indexOf promptLower keywordLower of
        None \<Rightarrow> None
      | Some idx \<Rightarrow>
          let after = drop (idx + length keyword) prompt;
              words = splitSpaces (trim after);
              yearMatch = (if str_includes keywordLower ''year''
                           then match after (False, year20) else None);
              monthMatch = (if str_includes keywordLower ''month''
                            then match after (True, Grp 1 monthAlt) else None)
          in if yearMatch \<noteq> None then map_option whole yearMatch
             else if monthMatch \<noteq> None then map_option whole monthMatch
             else if hd words \<noteq> [] \<and> toLowerCase (hd words) \<notin> set stopWords
             then Some (hd words)
             else if 1 < length words \<and> words ! 1 \<noteq> [] then Some (words ! 1)
             else None)"

definition extractValueFromPrompt :: "string \<Rightarrow> string \<Rightarrow> string option \<Rightarrow> string option" where
  "extractValueFromPrompt prompt keyword matchedPattern =
     (case fromMatchedPattern (toLowerCase keyword) matchedPattern of
        Some v \<Rightarrow> Some v
      | None \<Rightarrow>
          (case match prompt (False, quotedValue) of
             Some q \<Rightarrow> (case grp q 1 of Some v \<Rightarrow> Some v | None \<Rightarrow> grp q 2)
           | None \<Rightarrow> afterKeyword prompt keyword))"

subsection \<open>\<^verbatim>\<open>analyzeUserPrompt\<close>\<close>

text \<open>
  Confidence scores are JavaScript numbers, that is, double-precision floating-point
  numbers. A finite double is modelled by the rational number it denotes. \<open>toDouble\<close>
  rounds a rational to the nearest double, ties going to the even significand, as a
  decimal literal and every arithmetic operation do; the sum of two doubles is the
  rounded exact sum. Overflow to infinity is not modelled: the scores are sums of at
  most fourteen numbers below one.
\<close>

text \<open>The exponent \<open>e\<close> of a positive rational \<open>x\<close>, with \<open>2 ^ e \<le> x < 2 ^ (e + 1)\<close>; the
  first argument bounds the number of steps and is chosen above the exponent range of
  doubles.\<close>

fun log2Floor :: "nat \<Rightarrow> rat \<Rightarrow> int" where
  "log2Floor 0 x = 0"
| "log2Floor (Suc n) x =
     (if 2 \<le> x then log2Floor n (x / 2) + 1
      else if x < 1 then log2Floor n (x * 2) - 1
      else 0)"

definition roundHalfEven :: "rat \<Rightarrow> int" where
  "roundHalfEven q =
     (let f = \<lfloor>q\<rfloor>; r = q - of_int f in
      if r < 1 / 2 then f else if 1 / 2 < r then f + 1 else if even f then f else f + 1)"

definition pow2 :: "int \<Rightarrow> rat" where
  "pow2 e = (if 0 \<le> e then 2 ^ nat e else 1 / 2 ^ nat (- e))"

text \<open>The significand has 53 bits, so the last place of a number with exponent \<open>e\<close> is
  worth \<open>2 ^ (e - 52)\<close>, and never less than \<open>2 ^ - 1074\<close>.\<close>

definition toDouble :: "rat \<Rightarrow> rat" where
  "toDouble x =
     (if x = 0 then 0
      else let a = \<bar>x\<bar>; e = log2Floor 2200 a; u = pow2 (max (e - 52) (- 1074))
           in sgn x * of_int (roundHalfEven (a / u)) * u)"

definition fadd :: "rat \<Rightarrow> rat \<Rightarrow> rat" where
  "fadd x y = toDouble (x + y)"

record detectedTable =
  dt_table :: string
  dt_confidence :: rat
  dt_key :: string

record filterEntry =
  f_column :: string
  f_concept :: string
  f_value :: "string option"
  f_isAggregate :: bool

record aggregateEntry =
  a_column :: string
  a_function :: string
  a_alias :: string

record presentationHint =
  format :: string
  groupBy :: "string option"

record analysisResult =
  table :: detectedTable
  filters :: "filterEntry list"
  aggregates :: "aggregateEntry list"
  timeRange :: "timeRange option"
  presentation :: presentationHint

text \<open>The score of one table entry: the two \<^verbatim>\<open>forEach\<close> loops, over the synonyms and
  then over the patterns.\<close>

definition tableConfidence :: "string \<Rightarrow> tableConfig \<Rightarrow> rat" where
  "tableConfidence prompt config =
     (let promptLower = toLowerCase prompt;
          c1 = foldl (\<lambda>confidence syn.
                        if str_includes promptLower (toLowerCase syn)
                        then fadd confidence (toDouble (3 / 10)) else confidence)
                 0 (tc_synonyms config)
      in case tc_patterns config of
           None \<Rightarrow> c1
         | Some ps \<Rightarrow>
             foldl (\<lambda>confidence pat.
                      if test pat prompt then fadd confidence (toDouble (5 / 10)) else confidence)
               c1 ps)"

definition defaultTable :: detectedTable where
  "defaultTable =
     \<lparr>dt_table = ''SalesReport_Form_Input'', dt_confidence = toDouble (5 / 10),
      dt_key = ''sales''\<rparr>"

text \<open>The value recorded for a table entry that becomes the best one.\<close>

definition entryOf :: "string \<Rightarrow> string \<times> tableConfig \<Rightarrow> detectedTable" where
  "entryOf prompt entry =
     \<lparr>dt_table = tc_table (snd entry), dt_confidence = tableConfidence prompt (snd entry),
      dt_key = fst entry\<rparr>"

text \<open>One round of the loop over the table entries, and the loop.\<close>

definition tableStep :: "string \<Rightarrow> detectedTable \<Rightarrow> string \<times> tableConfig \<Rightarrow> detectedTable" where
  "tableStep prompt detected entry =
     (let confidence = tableConfidence prompt (snd entry) in
      if confidence > dt_confidence detected
      then \<lparr>dt_table = tc_table (snd entry), dt_confidence = confidence, dt_key = fst entry\<rparr>
      else detected)"

definition detectTable :: "string \<Rightarrow> detectedTable" where
  "detectTable prompt = foldl (tableStep prompt) defaultTable TABLE_MAPPINGS"

text \<open>The filters and aggregates pushed for one detection of a concept.\<close>

definition pushDetected ::
  "string \<Rightarrow> columnConfig \<Rightarrow> string option \<Rightarrow> filterEntry list \<times> aggregateEntry list \<Rightarrow>
   filterEntry list \<times> aggregateEntry list" where
  "pushDetected key config v acc =
     (fst acc @ [\<lparr>f_column = cc_column config, f_concept = key, f_value = v,
                  f_isAggregate = (cc_function config \<noteq> None)\<rparr>],
      case cc_function config of
        None \<Rightarrow> snd acc
      | Some fn \<Rightarrow> snd acc @ [\<lparr>a_column = cc_column config, a_function = fn,
                               a_alias = getAggregateAlias key\<rparr>])"

text \<open>The loop over the patterns of a concept: every pattern that matches pushes its
  entries and sets the flag \<^verbatim>\<open>detected\<close>.\<close>

fun byPatterns ::
  "string \<Rightarrow> string \<Rightarrow> columnConfig \<Rightarrow> pattern list \<Rightarrow>
   bool \<times> filterEntry list \<times> aggregateEntry list \<Rightarrow>
   bool \<times> filterEntry list \<times> aggregateEntry list" where
  "byPatterns prompt key config [] st = st"
| "byPatterns prompt key config (pat # pats) st =
     byPatterns prompt key config pats
       (case match prompt pat of
          None \<Rightarrow> st
        | Some m \<Rightarrow>
            (True,
             pushDetected key config
               (extractValueFromPrompt prompt (hd (cc_synonyms config)) (Some (whole m)))
               (snd st)))"

text \<open>The loop over the synonyms of a concept, left at the first synonym found.\<close>

fun bySynonyms ::
  "string \<Rightarrow> string \<Rightarrow> columnConfig \<Rightarrow> string list \<Rightarrow>
   filterEntry list \<times> aggregateEntry list \<Rightarrow> filterEntry list \<times> aggregateEntry list" where
  "bySynonyms prompt key config [] acc = acc"
| "bySynonyms prompt key config (syn # syns) acc =
     (if str_includes (toLowerCase prompt) (toLowerCase syn)
      then pushDetected key config (extractValueFromPrompt prompt syn None) acc
      else bySynonyms prompt key config syns acc)"

definition columnStep ::
  "string \<Rightarrow> filterEntry list \<times> aggregateEntry list \<Rightarrow> string \<times> columnConfig \<Rightarrow>
   filterEntry list \<times> aggregateEntry list" where
  "columnStep prompt acc entry =
     (let key = fst entry; config = snd entry;
          st = (case cc_patterns config of
                  None \<Rightarrow> (False, acc)
                | Some pats \<Rightarrow> byPatterns prompt key config pats (False, acc))
      in if fst st then snd st
         else bySynonyms prompt key config (cc_synonyms config) (snd st))"

definition detectColumns :: "string \<Rightarrow> filterEntry list \<times> aggregateEntry list" where
  "detectColumns prompt = foldl (columnStep prompt) ([], []) COLUMN_MAPPINGS"

text \<open>The special handling of the word \<^verbatim>\<open>count\<close>.\<close>

definition withCount :: "string \<Rightarrow> aggregateEntry list \<Rightarrow> aggregateEntry list" where
  "withCount prompt aggs =
     (if str_includes (toLowerCase prompt) ''count'' \<and>
         \<not> list_ex (\<lambda>a. a_function a = ''COUNT'') aggs
      then aggs @ [\<lparr>a_column = ''ID'', a_function = ''COUNT'', a_alias = ''TotalDeals''\<rparr>]
      else aggs)"

definition requiresTableFormat :: "string \<Rightarrow> bool" where
  "requiresTableFormat prompt =
     test (True, alts [twoWords ''table'' ''format'', Str ''tabular'', Str ''grid'',
                       Str ''spreadsheet'']) prompt"

definition analyzeUserPrompt :: "string \<Rightarrow> analysisResult" where
  "analyzeUserPrompt prompt =
     \<lparr>table = detectTable prompt,
      filters = filter (\<lambda>f. \<not> f_isAggregate f) (fst (detectColumns prompt)),
      aggregates = withCount prompt (snd (detectColumns prompt)),
      timeRange = detectTimeRangeEnhanced prompt,
      presentation =
        \<lparr>format = (if requiresTableFormat prompt then ''table'' else ''default''),
         groupBy = detectGroupBy prompt\<rparr>\<rparr>"

section \<open>The choice of a visualization\<close>

text \<open>A value in a row of the record set: a number, a text, \<^verbatim>\<open>null\<close>, a boolean, or an
  object of another kind (a date, a buffer) given by the text \<^verbatim>\<open>String\<close> makes of it.\<close>

datatype jsValue = JNumber rat | JString string | JNull | JBool bool | JObject string

text \<open>\<^verbatim>\<open>String(v)\<close> for a value that is not a number.\<close>

fun stringOf :: "jsValue \<Rightarrow> string" where
  "stringOf (JString s) = s"
| "stringOf JNull = ''null''"
| "stringOf (JBool b) = (if b then ''true'' else ''false'')"
| "stringOf (JObject s) = s"
| "stringOf (JNumber n) = []"

text \<open>\<^verbatim>\<open>typeof v === 'number' || /^\d+(\.\d+)?$/.test(String(v))\<close>; the text of a number is
  never looked at.\<close>

definition numericText :: regex where
  "numericText =
     seqs [Bol, Plus (Cls False [IDigit]),
           Opt (Grp 1 (Seq (Chr CHR ''.'') (Plus (Cls False [IDigit])))), Eol]"

definition numericLooking :: "jsValue \<Rightarrow> bool" where
  "numericLooking v =
     (case v of JNumber n \<Rightarrow> True | _ \<Rightarrow> test (False, numericText) (stringOf v))"

text \<open>\<open>chartWords a\<close> is \<^verbatim>\<open>\b(a\s*chart|achart|a\s*graph)\b\<close> for the word \<open>a\<close> of a chart
  kind.\<close>

definition chartWords :: "string \<Rightarrow> regex" where
  "chartWords a =
     seqs [WordB,
           Grp 1 (alts [seqs [Str a, Star (Cls False [ISpace]), Str ''chart''],
                        Str (a @ ''chart''),
                        seqs [Str a, Star (Cls False [ISpace]), Str ''graph'']]),
           WordB]"

text \<open>\<^verbatim>\<open>\b(table|tabular|data\s*table)\b\<close>.\<close>

definition tableWords :: regex where
  "tableWords =
     seqs [WordB,
           Grp 1 (alts [Str ''table'', Str ''tabular'',
                        seqs [Str ''data'', Star (Cls False [ISpace]), Str ''table'']]),
           WordB]"

definition chartPatterns :: "(pattern \<times> string) list" where
  "chartPatterns =
     [((True, chartWords ''bar''), ''bar''),
      ((True, chartWords ''line''), ''line''),
      ((True, chartWords ''pie''), ''pie''),
      ((True, tableWords), ''table'')]"

text \<open>The loop over \<open>chartPatterns\<close>, left at the first pattern that matches the
  prompt; the empty text when none does.\<close>

definition chartType :: "string \<Rightarrow> string" where
  "chartType prompt = (case firstGroup chartPatterns prompt of Some t \<Rightarrow> t | None \<Rightarrow> [])"

definition dateLike :: pattern where
  "dateLike = (True, alts [Str ''date'', Str ''month'', Str ''year'', Str ''time''])"

text \<open>A row is the list of its columns with their values, in the order of
  \<^verbatim>\<open>Object.keys\<close>; the record set is \<open>None\<close> when the driver returns none.\<close>

type_synonym row = "(string \<times> jsValue) list"

definition numericCols :: "row \<Rightarrow> string list" where
  "numericCols r =
     filter (\<lambda>c. case map_of r c of Some v \<Rightarrow> numericLooking v | None \<Rightarrow> False) (map fst r)"

definition chooseVisualization :: "string \<Rightarrow> row list option \<Rightarrow> string" where
  "chooseVisualization prompt recordset =
     (let viz = chartType prompt in
      case recordset of
        None \<Rightarrow> viz
      | Some [] \<Rightarrow> viz
      | Some (r # _) \<Rightarrow>
          let cols = map fst r;
              hasDate = list_ex (test dateLike) cols
          in if viz = [] then
               (if hasDate \<and> length (numericCols r) \<ge> 1 then ''line''
                else if length (numericCols r) \<ge> 1 \<and> length cols \<le> 3 then ''bar''
                else ''table'')
             else viz)"

section \<open>The SQL generator\<close>

subsection \<open>State and collaborators\<close>

text \<open>A thrown JavaScript error, with its message.\<close>

datatype jsError = JsError string

text \<open>A schema snapshot: the tables in the order of their keys, each with its columns
  and their declared types.\<close>

type_synonym schema = "(string \<times> (string \<times> string) list) list"

text \<open>
  The fields of a \<^verbatim>\<open>SQLGenerator\<close> that the generation reads and writes. \<open>dbConfig\<close> is the
  name of the database when a configuration was given; \<open>hasRedis\<close> tells whether an
  external cache was configured. Times are in milliseconds, the time to live in seconds.
\<close>

record generator =
  dbConfig :: "string option"
  hasRedis :: bool
  schemaCacheTTL :: int
  schemaMem :: "schema option"
  schemaFetchedAt :: int
  systemPromptExtra :: string

text \<open>
  What the external cache answers to \<^verbatim>\<open>get\<close>: nothing, a text that \<^verbatim>\<open>JSON.parse\<close>
  rejects, or the text of a schema. The cache is written by \<^verbatim>\<open>refreshSchemaFromDb\<close>
  alone, so other JSON documents are not considered.
\<close>

datatype redisReply = Miss | Garbage | Hit schema

text \<open>
  How the collaborators answer during one call of \<^verbatim>\<open>_getCachedSchema\<close>: the clock, the
  external cache on \<^verbatim>\<open>get\<close> and on \<^verbatim>\<open>set\<close> (an error when the call throws), and the
  database (an error when connecting or querying throws, else the rows of
  \<^verbatim>\<open>INFORMATION_SCHEMA.COLUMNS\<close> as table name, column name and data type).
\<close>

record answers =
  now :: int
  redisGet :: "jsError + redisReply"
  redisSet :: "jsError option"
  dbRows :: "jsError + (string \<times> string \<times> string) list"

subsection \<open>The schema cache\<close>

text \<open>The loop that groups the rows by table.\<close>

definition addColumn :: "schema \<Rightarrow> string \<times> string \<times> string \<Rightarrow> schema" where
  "addColumn sch r =
     (let tbl = fst r; col = (fst (snd r), snd (snd r)) in
      if tbl \<in> set (map fst sch)
      then map (\<lambda>e. if fst e = tbl then (fst e, snd e @ [col]) else e) sch
      else sch @ [(tbl, [col])])"

definition refreshSchemaFromDb :: "generator \<Rightarrow> answers \<Rightarrow> (jsError + schema) \<times> generator" where
  "refreshSchemaFromDb g a =
     (case dbConfig g of
        None \<Rightarrow> (Inl (JsError ''dbConfig is required to refresh schema from DB''), g)
      | Some db \<Rightarrow>
          (case dbRows a of
             Inl e \<Rightarrow> (Inl e, g)
           | Inr rows \<Rightarrow>
               let sch = foldl addColumn [] rows;
                   g' = g\<lparr>schemaMem := Some sch, schemaFetchedAt := now a\<rparr>
               in if hasRedis g
                  then (case redisSet a of
                          Some e \<Rightarrow> (Inl e, g')
                        | None \<Rightarrow> (Inr sch, g'))
                  else (Inr sch, g')))"

text \<open>The steps of \<^verbatim>\<open>_getCachedSchema\<close> after the test of the memory cache: the external
  cache, then the database, then whatever the memory holds.\<close>

definition fromDbOrMemory :: "generator \<Rightarrow> answers \<Rightarrow> (jsError + schema option) \<times> generator" where
  "fromDbOrMemory g a =
     (if dbConfig g \<noteq> None
      then (case refreshSchemaFromDb g a of
              (Inl e, g') \<Rightarrow> (Inl e, g')
            | (Inr sch, g') \<Rightarrow> (Inr (Some sch), g'))
      else if schemaMem g \<noteq> None then (Inr (schemaMem g), g)
      else (Inr None, g))"

definition getCachedSchema :: "generator \<Rightarrow> answers \<Rightarrow> (jsError + schema option) \<times> generator" where
  "getCachedSchema g a =
     (if schemaMem g \<noteq> None \<and> now a - schemaFetchedAt g < 1000 * schemaCacheTTL g
      then (Inr (schemaMem g), g)
      else if hasRedis g
      then (case redisGet a of
              Inl e \<Rightarrow> (Inl e, g)
            | Inr (Hit sch) \<Rightarrow>
                (Inr (Some sch), g\<lparr>schemaMem := Some sch, schemaFetchedAt := now a\<rparr>)
            | Inr Garbage \<Rightarrow> fromDbOrMemory g a
            | Inr Miss \<Rightarrow> fromDbOrMemory g a)
      else fromDbOrMemory g a)"

subsection \<open>The schema-conformance check\<close>

definition identifierRe :: pattern where
  "identifierRe =
     (False, Seq (Cls False [IRng CHR ''A'' CHR ''Z'', IRng CHR ''a'' CHR ''z'', IChr CHR ''_''])
               (Plus (Cls False [IRng CHR ''A'' CHR ''Z'', IRng CHR ''a'' CHR ''z'',
                                 IRng CHR ''0'' CHR ''9'', IChr CHR ''_''])))"

definition allowedWords :: "string list" where
  "allowedWords =
     [''SELECT'', ''SUM'', ''AVG'', ''MIN'', ''MAX'', ''COUNT'', ''FROM'', ''WHERE'', ''AND'', ''OR'',
      ''ON'', ''JOIN'', ''LEFT'', ''RIGHT'', ''INNER'', ''OUTER'', ''GROUP'', ''ORDER'', ''BY'', ''AS'',
      ''CAST'', ''REPLACE'', ''DECIMAL'', ''TOP'', ''WITH'', ''IS'', ''NULL'', ''NOT'', ''IN'',
      ''BETWEEN'', ''LIKE'', ''CASE'', ''WHEN'', ''THEN'', ''ELSE'', ''END'', ''HAVING'', ''LIMIT'',
      ''DISTINCT'', ''COALESCE'']"

text \<open>The identifiers of the text in upper case, each once, in the order in which they
  first occur; and the names the schema knows.\<close>

definition sqlTokens :: "string \<Rightarrow> string list" where
  "sqlTokens sqlText = rev (remdups (rev (map toUpperCase (matchAll sqlText identifierRe))))"

definition knownNames :: "schema \<Rightarrow> string list" where
  "knownNames sch =
     concat (map (\<lambda>e. toUpperCase (fst e) # map (\<lambda>c. toUpperCase (fst c)) (snd e)) sch)"

definition checkSqlAgainstSchema :: "generator \<Rightarrow> answers \<Rightarrow> string \<Rightarrow> (jsError + bool) \<times> generator" where
  "checkSqlAgainstSchema g a sqlText =
     (case getCachedSchema g a of
        (Inl e, g') \<Rightarrow> (Inl e, g')
      | (Inr None, g') \<Rightarrow> (Inr True, g')
      | (Inr (Some sch), g') \<Rightarrow>
          (Inr (list_all (\<lambda>tk. tk \<in> set allowedWords \<or> tk \<in> set (knownNames sch))
                  (sqlTokens sqlText)),
           g'))"

subsection \<open>The messages for the language model\<close>

definition sq :: string where "sq = [CHR 0x27]"
definition dq :: string where "dq = [CHR 0x22]"
definition nl :: string where "nl = [CHR 0x0A]"

text \<open>The arrow of the rule text, as the three bytes of its UTF-8 form.\<close>

definition arrow :: string where "arrow = [CHR 0xE2, CHR 0x86, CHR 0x92]"

text \<open>The argument is \<open>None\<close> when the prompt is absent or not a string.\<close>

definition normalizePrompt :: "string option \<Rightarrow> string" where
  "normalizePrompt userPrompt =
     (case userPrompt of
        None \<Rightarrow> []
      | Some p \<Rightarrow> if p = [] then [] else replaceAll (trim p) (False, Spaces) '' '')"

definition minimalSchemaText :: string where
  "minimalSchemaText =
     nl @
     ''Tables:'' @ nl @
     ''- SalesReport_Form_Input: ID, LEAD_ID, LAST_NAME, FIRST_NAME, DIVISION, DEALER_L'' @
     ''OCATION, STOCK, VEHICLE_TYPE, CAR_STATUS, MAKE_YEAR, MAKE, MODEL, TOTAL_COST, LE'' @
     ''AD_SOURCE, LEAD_OWNER, CLOSER, DATE_REPORTED, YEAR_REPORTED, MONTH_REPORTED, SOL'' @
     ''D_FROM, DATE_FUNDED, DATE_POSTED, DATE_RECEIVED, PBS_DATA, isCarryOver, isDelete'' @
     ''d, isCounted, HasLien'' @ nl @
     ''- Common_Group_401_Vehicle_Inventory: ID, vId, VehicleId, StockNumber, VIN, Vehi'' @
     ''cleType, VehicleTrim, VehicleStatus, VehicleMake, VehicleModel, VehicleYear, Inv'' @
     ''entory, TotalCost, Retail, isHold, isSold, isAvailable, DATE_CREATED, Odometer, '' @
     ''Lot, IsCertified'' @ nl @
     ''- SalesApp_LogInActivity: LogInActivityID, UserID, Token, LogedIn, LogOut, IpLog'' @
     '', Device, IpLocation, Activity'' @ nl"

text \<open>\<^verbatim>\<open>xs.join(sep)\<close>.\<close>

fun joinWith :: "string \<Rightarrow> string list \<Rightarrow> string" where
  "joinWith sep [] = []"
| "joinWith sep [x] = x"
| "joinWith sep (x # y # ys) = x @ sep @ joinWith sep (y # ys)"

definition renderSchemaDescription :: "schema option \<Rightarrow> string" where
  "renderSchemaDescription schemaObj =
     (case schemaObj of
        None \<Rightarrow> minimalSchemaText
      | Some sch \<Rightarrow>
          foldl (\<lambda>sb e. sb @ ''- '' @ fst e @ '': '' @
                         joinWith '', '' (map fst (snd e)) @ nl)
            (''Tables:'' @ nl) sch)"

definition rulesHead :: string where
  "rulesHead =
     nl @
     ''You are a helpful assistant that strictly returns a single valid SQL Server SELE'' @
     ''CT query (no explanation).'' @ nl @
     ''The database schema is described as:'' @ nl"

definition rulesBody :: string where
  "rulesBody =
     nl @
     nl @
     ''Rules:'' @ nl @
     ''1. Only return a single T-SQL SELECT or WITH query. Do NOT return DDL/DML or any'' @
     '' explanation.'' @ nl @
     ''2. Use column and table names exactly as shown above.'' @ nl @
     ''3. Map natural language:'' @ nl @
     ''   - '' @ dq @ ''dealership'' @ dq @ '' '' @ arrow @ '' DEALER_LOCATION (use '' @ sq @
     ''='' @ sq @ '' for comparisons)'' @ nl @
     ''   - '' @ dq @ ''gross'' @ dq @ '' or '' @ dq @ ''total cost'' @ dq @ '' '' @ arrow @
     '' TOTAL_COST'' @ nl @
     ''   - VEHICLE_TYPE values: auto, rv, marine'' @ nl @
     ''   - CAR_STATUS values: new, used'' @ nl @
     ''   - DIVISION values: 401, franchise, 401 retail'' @ nl @
     ''4. When querying SalesReport_Form_Input:'' @ nl @
     ''   - Always exclude rows where isCarryOver = 1 OR isDeleted = 1.'' @ nl @
     ''   - When counting deals, include only rows with isCounted = 1.'' @ nl @
     ''   - When aggregating gross, include rows regardless of isCounted.'' @ nl @
     ''5. MONTH_REPORTED comparisons must be paired with YEAR_REPORTED; if no year prov'' @
     ''ided, use the current year (server-side).'' @ nl @
     ''6. When summing string numerics: use SUM(CAST(REPLACE(REPLACE(ColumnName, '' @ sq @ '','' @
     sq @ '', '' @ sq @ sq @ ''), '' @ sq @ '' '' @ sq @ '', '' @ sq @ sq @
     '') AS DECIMAL(13,2)))'' @ nl @
     ''7. If the request cannot be answered using available columns, return: SELECT TOP'' @
     '' (0) * FROM SalesReport_Form_Input;'' @ nl"

definition buildSystemPrompt :: "generator \<Rightarrow> string \<Rightarrow> string" where
  "buildSystemPrompt g schemaDescription =
     rulesHead @ schemaDescription @ rulesBody @ systemPromptExtra g @ nl"

type_synonym message = "string \<times> string"

definition buildMessages :: "generator \<Rightarrow> string \<Rightarrow> string \<Rightarrow> message list" where
  "buildMessages g schemaDesc normalizedPrompt =
     [(''system'', buildSystemPrompt g schemaDesc),
      (''user'', ''User request: '' @ dq @ normalizedPrompt @ dq @ nl @
                 ''Return only the SQL query.'')]"

subsection \<open>\<^verbatim>\<open>generateSqlFromPrompt\<close>\<close>

text \<open>\<^verbatim>\<open>sqlText.replace(/\s*;+\s*$/g, '')\<close>.\<close>

definition trailingSemicolons :: pattern where
  "trailingSemicolons =
     (False, seqs [Star (Cls False [ISpace]), Plus (Chr CHR '';''), Star (Cls False [ISpace]),
                   Eol])"

text \<open>
  The language model client takes the messages and throws or answers; its answer is
  the text at \<^verbatim>\<open>choices[0].message.content\<close>, or \<open>None\<close> when a link of that chain is
  missing. The first \<open>answers\<close> are those at the start of the request, the second
  those after the model has answered. The option \<^verbatim>\<open>enforceSchemaCheck\<close> is \<open>None\<close>
  when not given. The result is the error thrown or the SQL text returned, with the
  generator as the request leaves it.
\<close>

definition generateSqlFromPrompt ::
  "generator \<Rightarrow> answers \<Rightarrow> (message list \<Rightarrow> jsError + string option) \<Rightarrow> answers \<Rightarrow>
   string option \<Rightarrow> bool option \<Rightarrow> (jsError + string) \<times> generator" where
  "generateSqlFromPrompt g a1 llmClient a2 userPrompt enforceOpt =
     (let enforceSchemaCheck = (case enforceOpt of None \<Rightarrow> True | Some b \<Rightarrow> b);
          normalizedPrompt = normalizePrompt userPrompt;
          first = getCachedSchema g a1;
          schemaObj = (case fst first of Inl e \<Rightarrow> None | Inr s \<Rightarrow> s);
          g1 = snd first;
          schemaDesc = renderSchemaDescription schemaObj;
          messages = buildMessages g1 schemaDesc normalizedPrompt
      in case llmClient messages of
           Inl err \<Rightarrow> (Inr fallbackSql, g1)
         | Inr content \<Rightarrow>
             let sqlText = trim (case content of None \<Rightarrow> [] | Some c \<Rightarrow> c) in
             if sqlText = [] then (Inr fallbackSql, g1)
             else if \<not> validateSqlSafety sqlText then (Inr fallbackSql, g1)
             else if enforceSchemaCheck
             then (case checkSqlAgainstSchema g1 a2 sqlText of
                     (Inl e, g2) \<Rightarrow> (Inl e, g2)
                   | (Inr matchesSchema, g2) \<Rightarrow>
                       if \<not> matchesSchema then (Inr fallbackSql, g2)
                       else (Inr (replaceAll sqlText trailingSemicolons []), g2))
             else (Inr (replaceAll sqlText trailingSemicolons []), g1))"

section \<open>Example states\<close>

text \<open>A generator with a database configured and nothing cached, and collaborators
  whose database cannot be reached.\<close>

definition dbGenerator :: generator where
  "dbGenerator =
     \<lparr>dbConfig = Some ''SalesDb'', hasRedis = False, schemaCacheTTL = 3600, schemaMem = None,
      schemaFetchedAt = 0, systemPromptExtra = []\<rparr>"

definition unreachable :: answers where
  "unreachable =
     \<lparr>now = 1000, redisGet = Inr Miss, redisSet = None,
      dbRows = Inl (JsError ''Failed to connect to db:1433'')\<rparr>"

text \<open>A generator with no database configured, an external cache that holds nothing,
  and nothing in memory; and the same generator with a one-table schema in memory.\<close>

definition bareGenerator :: generator where
  "bareGenerator =
     \<lparr>dbConfig = None, hasRedis = True, schemaCacheTTL = 3600, schemaMem = None,
      schemaFetchedAt = 0, systemPromptExtra = []\<rparr>"

definition emptyCache :: answers where
  "emptyCache = \<lparr>now = 1000, redisGet = Inr Miss, redisSet = None, dbRows = Inr []\<rparr>"

definition cachedGenerator :: generator where
  "cachedGenerator =
     bareGenerator\<lparr>schemaMem := Some [(''SalesReport_Form_Input'',
                                         [(''ID'', ''int''), (''TOTAL_COST'', ''varchar'')])],
                   schemaFetchedAt := 1000\<rparr>"

section \<open>Facts about the text primitives\<close>

lemma startsWith_iff: "startsWith s p = (\<exists>b. s = p @ b)"
  unfolding startsWith_def
  by (metis append_eq_conv_conj append_take_drop_id)

lemma str_includes_iff: "str_includes s p = (\<exists>a b. s = a @ p @ b)"
proof (induction s)
  case Nil
  then show ?case by auto
next
  case (Cons c cs)
  show ?case
  proof
    assume "str_includes (c # cs) p"
    then consider "startsWith (c # cs) p" | "str_includes cs p" by auto
    then show "\<exists>a b. c # cs = a @ p @ b"
    proof cases
      case 1
      then obtain b where "c # cs = p @ b" by (auto simp: startsWith_iff)
      then have "c # cs = [] @ p @ b" by simp
      then show ?thesis by blast
    next
      case 2
      then obtain a b where "cs = a @ p @ b" using Cons.IH by auto
      then have "c # cs = (c # a) @ p @ b" by simp
      then show ?thesis by blast
    qed
  next
    assume "\<exists>a b. c # cs = a @ p @ b"
    then obtain a b where ab: "c # cs = a @ p @ b" by blast
    show "str_includes (c # cs) p"
    proof (cases a)
      case Nil
      with ab have "startsWith (c # cs) p" unfolding startsWith_iff by auto
      then show ?thesis by simp
    next
      case (Cons x xs)
      then have "cs = xs @ p @ b" using ab by simp
      then show ?thesis using Cons.IH by auto
    qed
  qed
qed

lemma trim_sublist: "\<exists>a b. s = a @ trim s @ b"
proof -
  let ?t = "dropWhile isSpace s"
  have 1: "s = takeWhile isSpace s @ ?t" by simp
  have "rev ?t = takeWhile isSpace (rev ?t) @ dropWhile isSpace (rev ?t)" by simp
  then have "?t = rev (dropWhile isSpace (rev ?t)) @ rev (takeWhile isSpace (rev ?t))"
    by (metis rev_append rev_rev_ident)
  then have "?t = trim s @ rev (takeWhile isSpace (rev ?t))" by (simp add: trim_def)
  with 1 show ?thesis by metis
qed

lemma trim_idem: "trim (trim s) = trim s"
proof -
  define d where "d = dropWhile isSpace s"
  define u where "u = dropWhile isSpace (rev d)"
  have t: "trim s = rev u" by (simp add: trim_def u_def d_def)
  have A: "dropWhile isSpace (rev u) = rev u"
  proof (cases "u = []")
    case True
    then show ?thesis by simp
  next
    case False
    have "rev d = takeWhile isSpace (rev d) @ u" by (simp add: u_def)
    with False have "last (rev d) = last u" by (metis last_appendR)
    moreover have "d \<noteq> []" using False u_def by auto
    ultimately have "last u = hd d" by (simp add: last_rev)
    moreover have "\<not> isSpace (hd d)" using \<open>d \<noteq> []\<close> unfolding d_def by (rule hd_dropWhile)
    ultimately have "\<not> isSpace (hd (rev u))" using False by (simp add: hd_rev)
    then show ?thesis by (simp add: dropWhile_eq_self_iff)
  qed
  have B: "dropWhile isSpace u = u" by (simp add: u_def)
  show ?thesis unfolding t by (simp add: trim_def A B)
qed












section \<open>Facts about the removal of code fences\<close>

text \<open>What the matcher does on the fence pattern and on the semicolon pattern.\<close>

lemma startsWith_Cons:
  "startsWith s (x # xs) = (case s of [] \<Rightarrow> False | y # ys \<Rightarrow> y = x \<and> startsWith ys xs)"
  by (cases s) (auto simp: startsWith_def)

lemma run_Str:
  "run (Str lit) False (p, s, c) =
     (if startsWith s lit then [(if lit = [] then p else Some (last lit), drop (length lit) s, c)]
      else [])"
proof (induction lit arbitrary: p s)
  case Nil
  then show ?case by (simp add: Str_def startsWith_def)
next
  case (Cons x xs)
  have S: "Str (x # xs) = Seq (Chr x) (Str xs)" by (simp add: Str_def)
  show ?case
  proof (cases s)
    case Nil
    then show ?thesis by (simp add: S startsWith_Cons)
  next
    case (Cons y ys)
    then show ?thesis using Cons.IH [of "Some y" ys]
      by (auto simp add: S startsWith_Cons)
  qed
qed

lemma rep_class_head:
  assumes step: "\<And>p y ys c. f (p, y # ys, c) = (if P y then [(Some y, ys, c)] else [])"
    and stop: "\<And>p c. f (p, [], c) = []"
  shows "length s \<le> fuel \<Longrightarrow>
    \<exists>p' tl. rep f 0 None fuel (p, s, c) = (p', dropWhile P s, c) # tl"
proof (induction s arbitrary: fuel p)
  case Nil
  then show ?case by (cases fuel) (simp_all add: stop)
next
  case (Cons y ys)
  then obtain k where k: "fuel = Suc k" "length ys \<le> k" by (cases fuel) auto
  show ?case
  proof (cases "P y")
    case True
    from Cons.IH [OF k(2), of "Some y"] obtain p' tl where
      "rep f 0 None k (Some y, ys, c) = (p', dropWhile P ys, c) # tl" by blast
    then show ?thesis using True k by (simp add: step)
  next
    case False
    then show ?thesis using k by (simp add: step)
  qed
qed

lemma rep_word_head:
  "length s \<le> fuel \<Longrightarrow>
   \<exists>p' tl. rep (run (Cls False [IWord]) False) 0 None fuel (p, s, c)
      = (p', dropWhile isWordChar s, c) # tl"
  by (rule rep_class_head) simp_all

lemma run_opt_newline_head:
  "\<exists>p' tl. run (Opt (Chr (CHR 0x0A))) False (p, s, c) = (p', dropNewline s, c) # tl"
proof (cases s)
  case Nil
  then show ?thesis by (simp add: Opt_def dropNewline_def)
next
  case (Cons y ys)
  then show ?thesis by (cases ys) (simp_all add: Opt_def dropNewline_def)
qed

lemma run_fence_none:
  "\<not> startsWith s ''```'' \<Longrightarrow> run (snd fencePattern) (fst fencePattern) (p, s, []) = []"
  by (simp add: fencePattern_def run_Str)

lemma run_fence_head:
  assumes "startsWith s ''```''"
  shows "\<exists>p' tl. run (snd fencePattern) (fst fencePattern) (p, s, [])
           = (p', dropNewline (dropWhile isWordChar (drop 3 s)), []) # tl"
proof -
  obtain p1 tl1 where 1:
    "run (Star (Cls False [IWord])) False (Some CHR ''`'', drop 3 s, [])
       = (p1, dropWhile isWordChar (drop 3 s), []) # tl1"
    using rep_word_head [of "drop 3 s" "length (drop 3 s)" "Some CHR ''`''" "[]"]
    by (auto simp add: Star_def)
  obtain p2 tl2 where 2:
    "run (Opt (Chr (CHR 0x0A))) False (p1, dropWhile isWordChar (drop 3 s), [])
       = (p2, dropNewline (dropWhile isWordChar (drop 3 s)), []) # tl2"
    using run_opt_newline_head by blast
  show ?thesis using assms 1 2
    by (simp add: fencePattern_def run_Str numeral_3_eq_3)
qed

lemma dropNewline_suffix: "\<exists>pre. s = pre @ dropNewline s"
  by (cases s) (auto simp: dropNewline_def intro: exI [of _ "[x]" for x])

lemma fence_rest_suffix:
  "\<exists>pre. length pre \<ge> 3 \<and> s = pre @ dropNewline (dropWhile isWordChar (drop 3 s))"
  if "startsWith s ''```''"
proof -
  let ?d = "drop 3 s" and ?w = "dropWhile isWordChar (drop 3 s)"
  from that have l: "length s \<ge> 3" by (auto simp: startsWith_iff)
  obtain pre where p: "?w = pre @ dropNewline ?w" using dropNewline_suffix by blast
  have "s = take 3 s @ takeWhile isWordChar ?d @ ?w" by simp
  then have "s = (take 3 s @ takeWhile isWordChar ?d @ pre) @ dropNewline ?w"
    using p by (metis append.assoc)
  moreover have "length (take 3 s @ takeWhile isWordChar ?d @ pre) \<ge> 3" using l by simp
  ultimately show ?thesis by blast
qed

lemma replaceAllFrom_fence:
  "replaceAllFrom fencePattern [] p k s = stripFences (drop k s)"
proof (induction s arbitrary: p k)
  case Nil
  then show ?case by simp
next
  case (Cons c cs)
  show ?case
  proof (cases k)
    case (Suc k')
    then show ?thesis using Cons.IH by simp
  next
    case 0
    show ?thesis
    proof (cases "startsWith (c # cs) ''```''")
      case False
      then show ?thesis using 0 Cons.IH [of "Some c" 0]
        by (simp add: run_fence_none)
    next
      case True
      define R where "R = dropNewline (dropWhile isWordChar (drop 3 (c # cs)))"
      obtain p' tl where r: "run (snd fencePattern) (fst fencePattern) (p, c # cs, [])
           = (p', R, []) # tl"
        using run_fence_head [OF True] unfolding R_def by blast
      obtain pre where pre: "length pre \<ge> 3" "c # cs = pre @ R"
        using fence_rest_suffix [OF True] unfolding R_def by blast
      then have n: "length (c # cs) - length R = length pre"
        by (metis add_diff_cancel_right' length_append)
      from pre obtain pre' where pre': "pre = c # pre'" by (cases pre) auto
      with pre have cs: "cs = pre' @ R" by simp
      then have d: "drop (length pre') cs = R" by (metis append_eq_conv_conj)
      have "replaceAllFrom fencePattern [] p 0 (c # cs)
              = replaceAllFrom fencePattern [] (Some c) (length pre') cs"
        using r n pre' by (simp add: Let_def)
      also have "\<dots> = stripFences (drop (length pre') cs)"
        by (rule Cons.IH)
      also have "\<dots> = stripFences R"
        using d by simp
      also have "\<dots> = stripFences (c # cs)"
        using True by (simp add: R_def)
      finally show ?thesis using 0 by simp
    qed
  qed
qed

lemma replaceAll_fence: "replaceAll s fencePattern [] = stripFences s"
  by (simp add: replaceAll_def replaceAllFrom_fence)

lemma stripFences_head1:
  "startsWith (stripFences s) ''`'' \<Longrightarrow> startsWith s ''`''"
  by (cases s) (auto simp: startsWith_iff split: if_splits)

lemma stripFences_head2:
  assumes a: "startsWith (stripFences s) ''``''"
  shows "startsWith s ''``''"
proof (cases s)
  case Nil
  then show ?thesis using a by simp
next
  case (Cons c cs)
  show ?thesis
  proof (cases "startsWith (c # cs) ''```''")
    case True
    then show ?thesis using Cons by (auto simp: startsWith_iff)
  next
    case False
    with a Cons have "startsWith (c # stripFences cs) ''``''" by simp
    then have "c = CHR ''`''" and "startsWith (stripFences cs) ''`''"
      by (auto simp: startsWith_iff)
    then show ?thesis using stripFences_head1[of cs] Cons
      by (cases cs) (auto simp: startsWith_iff)
  qed
qed

lemma stripFences_no_fence: "\<not> str_includes (stripFences s) ''```''"
proof (induction s rule: stripFences.induct)
  case 1
  then show ?case by simp
next
  case (2 c cs)
  show ?case
  proof (cases "startsWith (c # cs) ''```''")
    case True
    then show ?thesis using 2 by simp
  next
    case False
    have "\<not> startsWith (c # stripFences cs) ''```''"
    proof
      assume "startsWith (c # stripFences cs) ''```''"
      then have "c = CHR ''`''" and "startsWith (stripFences cs) ''``''"
        by (auto simp: startsWith_iff)
      then have "startsWith (c # cs) ''```''" using stripFences_head2[of cs]
        by (auto simp: startsWith_iff)
      with False show False by simp
    qed
    then show ?thesis using 2 False by simp
  qed
qed

lemma stripFences_id: "\<not> str_includes s ''```'' \<Longrightarrow> stripFences s = s"
  by (induction s) auto

lemma trim_no_fence: "\<not> str_includes s p \<Longrightarrow> \<not> str_includes (trim s) p"
proof -
  assume a: "\<not> str_includes s p"
  obtain a b where s: "s = a @ trim s @ b" using trim_sublist by blast
  show ?thesis
  proof
    assume "str_includes (trim s) p"
    then obtain x y where "trim s = x @ p @ y" by (auto simp: str_includes_iff)
    with s have "s = (a @ x) @ p @ (y @ b)" by simp
    then have "str_includes s p" unfolding str_includes_iff by blast
    with a show False by simp
  qed
qed

lemma clean_fixed: "trim (stripFences (trim (stripFences s))) = trim (stripFences s)"
proof -
  have "\<not> str_includes (trim (stripFences s)) ''```''"
    by (rule trim_no_fence) (rule stripFences_no_fence)
  then have "stripFences (trim (stripFences s)) = trim (stripFences s)" by (rule stripFences_id)
  then show ?thesis by (simp add: trim_idem)
qed

lemma fallback_clean: "validateAndCleanSql (Some fallbackSql) t = fallbackSql"
  by code_simp

lemma startsWith_nonempty: "startsWith s p \<Longrightarrow> p \<noteq> [] \<Longrightarrow> s \<noteq> []"
  by (auto simp: startsWith_def)

section \<open>Semicolons in \<^verbatim>\<open>isSafeSelect\<close>\<close>



section \<open>Idempotence of \<^verbatim>\<open>validateAndCleanSql\<close>\<close>

text \<open>
  Claim C8. Applying \<^verbatim>\<open>validateAndCleanSql\<close> to its own result returns that result: for
  every input, absent or present, and whatever the expected-table arguments are.
\<close>

theorem validateAndCleanSql_idempotent:
  "validateAndCleanSql (Some (validateAndCleanSql sql t)) t' = validateAndCleanSql sql t"
proof (cases "validateAndCleanSql sql t = fallbackSql")
  case True
  then show ?thesis by (simp add: fallback_clean)
next
  case False
  then obtain s0 where s0: "sql = Some s0" "s0 \<noteq> []"
    by (cases sql) (auto simp: validateAndCleanSql_def replaceAll_fence split: if_splits)
  define s where "s = trim (stripFences s0)"
  from False s0
  have ok: "startsWith (toUpperCase s) ''SELECT'' \<or> startsWith (toUpperCase s) ''WITH''"
    and nd: "\<not> list_ex (\<lambda>keyword. str_includes (toUpperCase s) ('' '' @ keyword @ '' ''))
                 dangerousKeywords"
    and r: "validateAndCleanSql sql t = s"
    by (auto simp: validateAndCleanSql_def replaceAll_fence Let_def s_def split: if_splits)
  from ok have ne: "s \<noteq> []" by (auto simp: startsWith_def toUpperCase_def)
  have fx: "trim (stripFences s) = s" unfolding s_def by (rule clean_fixed)
  show ?thesis unfolding r using ne ok nd
    by (auto simp add: validateAndCleanSql_def replaceAll_fence Let_def fx)
qed

theorem validateAndCleanSql_idempotent_witness:
  "validateAndCleanSql
     (Some (validateAndCleanSql
        (Some (''```sql'' @ [CHR 0x0A] @ ''SELECT COUNT(ID) FROM SalesReport_Form_Input'' @
               [CHR 0x0A] @ ''```''))
        ''SalesReport_Form_Input''))
     ''SalesReport_Form_Input''
   = ''SELECT COUNT(ID) FROM SalesReport_Form_Input''"
proof -
  have "validateAndCleanSql
      (Some (''```sql'' @ [CHR 0x0A] @ ''SELECT COUNT(ID) FROM SalesReport_Form_Input'' @
             [CHR 0x0A] @ ''```''))
      ''SalesReport_Form_Input''
    = ''SELECT COUNT(ID) FROM SalesReport_Form_Input''"
    by code_simp
  then show ?thesis
    using validateAndCleanSql_idempotent
      [of "Some (''```sql'' @ [CHR 0x0A] @ ''SELECT COUNT(ID) FROM SalesReport_Form_Input'' @
                 [CHR 0x0A] @ ''```'')"
          "''SalesReport_Form_Input''" "''SalesReport_Form_Input''"]
    by simp
qed

section \<open>Forbidden keywords in the two validators\<close>

text \<open>When the trimmed text is no longer than the limit, \<^verbatim>\<open>validateSqlSafety\<close> is the
  conjunction of its pattern checks.\<close>

lemma validateSqlSafety_short:
  "length (trim sqlText) \<le> 20000 \<Longrightarrow>
   validateSqlSafety sqlText =
     (sqlText \<noteq> [] \<and>
      test (True, Seq Bol (Seq (Grp 1 (Alt (Str ''SELECT'') (Str ''WITH''))) WordB))
        (trim sqlText) \<and>
      \<not> list_ex (\<lambda>p. test (True, p) (trim sqlText)) forbiddenPatterns \<and>
      \<not> test (True, wholeWord ''xp_cmdshell'') (trim sqlText) \<and>
      \<not> test (True, Seq WordB (Str ''sp_'')) (trim sqlText))"
  by (auto simp add: validateSqlSafety_def Let_def)

lemma isSafeSelect_exec: "isSafeSelect ''SELECT 1 EXEC(@cmd)''"
  by code_simp

lemma isSafeSelect_grant: "\<not> isSafeSelect ''SELECT 1 GRANT SELECT ON t TO guest''"
  by code_simp

lemma validateSqlSafety_exec: "\<not> validateSqlSafety ''SELECT 1 EXEC(@cmd)''"
proof -
  have t: "trim ''SELECT 1 EXEC(@cmd)'' = ''SELECT 1 EXEC(@cmd)''"
    by code_simp
  have "list_ex (\<lambda>p. test (True, p) ''SELECT 1 EXEC(@cmd)'') forbiddenPatterns"
    by code_simp
  then show ?thesis
    by (subst validateSqlSafety_short) (simp_all add: t)
qed

lemma validateSqlSafety_grant: "validateSqlSafety ''SELECT 1 GRANT SELECT ON t TO guest''"
proof -
  have t: "trim ''SELECT 1 GRANT SELECT ON t TO guest'' = ''SELECT 1 GRANT SELECT ON t TO guest''"
    by code_simp
  have "test (True, Seq Bol (Seq (Grp 1 (Alt (Str ''SELECT'') (Str ''WITH''))) WordB))
          ''SELECT 1 GRANT SELECT ON t TO guest'' \<and>
        \<not> list_ex (\<lambda>p. test (True, p) ''SELECT 1 GRANT SELECT ON t TO guest'')
            forbiddenPatterns \<and>
        \<not> test (True, wholeWord ''xp_cmdshell'') ''SELECT 1 GRANT SELECT ON t TO guest'' \<and>
        \<not> test (True, Seq WordB (Str ''sp_'')) ''SELECT 1 GRANT SELECT ON t TO guest''"
    by code_simp
  then show ?thesis
    by (subst validateSqlSafety_short) (simp_all add: t)
qed

text \<open>
  Claim C1 says that both validators reject every text in which one of \<^verbatim>\<open>insert\<close>,
  \<^verbatim>\<open>update\<close>, \<^verbatim>\<open>delete\<close>, \<^verbatim>\<open>drop\<close>, \<^verbatim>\<open>alter\<close>, \<^verbatim>\<open>create\<close>, \<^verbatim>\<open>truncate\<close>, \<^verbatim>\<open>exec\<close>, \<^verbatim>\<open>merge\<close>,
  \<^verbatim>\<open>grant\<close>, \<^verbatim>\<open>revoke\<close> stands as a whole word. Neither does. \<^verbatim>\<open>isSafeSelect\<close> looks for
  each keyword followed by a space, so it accepts \<^verbatim>\<open>SELECT 1 EXEC(@cmd)\<close>, where the
  whole word \<^verbatim>\<open>EXEC\<close> is followed by a bracket; \<^verbatim>\<open>validateSqlSafety\<close>, which matches
  whole words, rejects that text. \<^verbatim>\<open>validateSqlSafety\<close> has no pattern for \<^verbatim>\<open>merge\<close>,
  \<^verbatim>\<open>grant\<close> and \<^verbatim>\<open>revoke\<close>, so it accepts \<^verbatim>\<open>SELECT 1 GRANT SELECT ON t TO guest\<close>;
  \<^verbatim>\<open>isSafeSelect\<close>, which lists \<^verbatim>\<open>grant\<close>, rejects that text.
\<close>

theorem validators_accept_forbidden_words:
  "isSafeSelect ''SELECT 1 EXEC(@cmd)'' \<and>
   \<not> validateSqlSafety ''SELECT 1 EXEC(@cmd)'' \<and>
   validateSqlSafety ''SELECT 1 GRANT SELECT ON t TO guest'' \<and>
   \<not> isSafeSelect ''SELECT 1 GRANT SELECT ON t TO guest''"
  using isSafeSelect_exec isSafeSelect_grant validateSqlSafety_exec validateSqlSafety_grant
  by simp

section \<open>The analysis of two prompts\<close>

subsection \<open>Total gross by dealership for October 2025\<close>

lemma columns_gross:
  "detectColumns ''Show total gross by dealership for October 2025'' =
     ([\<lparr>f_column = ''DEALER_LOCATION'', f_concept = ''dealership'',
         f_value = Some ''October'', f_isAggregate = False\<rparr>,
       \<lparr>f_column = ''TOTAL_COST'', f_concept = ''gross'',
         f_value = Some ''dealership'', f_isAggregate = True\<rparr>,
       \<lparr>f_column = ''MONTH_REPORTED'', f_concept = ''month'',
         f_value = Some ''October'', f_isAggregate = False\<rparr>,
       \<lparr>f_column = ''YEAR_REPORTED'', f_concept = ''year'',
         f_value = Some ''2025'', f_isAggregate = False\<rparr>],
      [\<lparr>a_column = ''TOTAL_COST'', a_function = ''SUM'', a_alias = ''TotalGross''\<rparr>])"
  by code_simp

lemma nocount_gross:
  "\<not> str_includes (toLowerCase ''Show total gross by dealership for October 2025'') ''count''"
  by code_simp

lemma table_gross:
  "dt_table (detectTable ''Show total gross by dealership for October 2025'')
     = ''SalesReport_Form_Input''"
  by code_simp

lemma group_gross:
  "detectGroupBy ''Show total gross by dealership for October 2025'' = Some ''DEALER_LOCATION''"
  by code_simp

lemma time_gross:
  "detectTimeRangeEnhanced ''Show total gross by dealership for October 2025'' =
     Some (SpecificYear ''2025'' (''YEAR_REPORTED = '' @ quoted ''2025''))"
  by code_simp

lemma time_gross_year_first:
  "detectTimeRangeEnhanced ''Show total gross by dealership for 2025 October'' =
     Some (SpecificMonthYear ''2025'' ''october''
            (''MONTH_REPORTED = '' @ quoted ''October'' @ '' AND YEAR_REPORTED = '' @
             quoted ''2025''))"
  by code_simp

text \<open>
  Claim C4 says that for the prompt \<^verbatim>\<open>Show total gross by dealership for October 2025\<close>
  the time range is the month-and-year value with month \<^verbatim>\<open>october\<close> and year \<^verbatim>\<open>2025\<close>.
  It is not: the month-and-year rule wants the year before the month, so the rule for
  a year alone is the first that matches, and the time range is the year value with
  year \<^verbatim>\<open>2025\<close> and the condition \<^verbatim>\<open>YEAR_REPORTED = '2025'\<close>, which carries no month.
\<close>

theorem october_2025_is_year_only:
  "timeRange (analyzeUserPrompt ''Show total gross by dealership for October 2025'') =
     Some (SpecificYear ''2025'' (''YEAR_REPORTED = '' @ quoted ''2025''))"
  by (simp add: analyzeUserPrompt_def time_gross)

text \<open>
  Claim C4, amended. For the prompt \<^verbatim>\<open>Show total gross by dealership for October 2025\<close>
  the detected table is \<^verbatim>\<open>SalesReport_Form_Input\<close>, the aggregates are the one entry
  \<^verbatim>\<open>SUM\<close> on \<^verbatim>\<open>TOTAL_COST\<close> (alias \<^verbatim>\<open>TotalGross\<close>), the grouping column is
  \<^verbatim>\<open>DEALER_LOCATION\<close>, and the time range is the year value with year \<^verbatim>\<open>2025\<close>. The
  month-and-year value with month \<^verbatim>\<open>october\<close> and year \<^verbatim>\<open>2025\<close> is what the same prompt
  yields when it ends with \<^verbatim>\<open>2025 October\<close>.
\<close>

theorem analyze_total_gross_by_dealership:
  "dt_table (table (analyzeUserPrompt ''Show total gross by dealership for October 2025''))
     = ''SalesReport_Form_Input'' \<and>
   aggregates (analyzeUserPrompt ''Show total gross by dealership for October 2025'')
     = [\<lparr>a_column = ''TOTAL_COST'', a_function = ''SUM'', a_alias = ''TotalGross''\<rparr>] \<and>
   groupBy (presentation (analyzeUserPrompt ''Show total gross by dealership for October 2025''))
     = Some ''DEALER_LOCATION'' \<and>
   timeRange (analyzeUserPrompt ''Show total gross by dealership for October 2025'')
     = Some (SpecificYear ''2025'' (''YEAR_REPORTED = '' @ quoted ''2025'')) \<and>
   timeRange (analyzeUserPrompt ''Show total gross by dealership for 2025 October'')
     = Some (SpecificMonthYear ''2025'' ''october''
              (''MONTH_REPORTED = '' @ quoted ''October'' @ '' AND YEAR_REPORTED = '' @
               quoted ''2025''))"
  by (simp add: analyzeUserPrompt_def columns_gross nocount_gross table_gross group_gross
      time_gross time_gross_year_first withCount_def)

subsection \<open>Count deals this month\<close>

lemma columns_count:
  "detectColumns ''count deals this month'' =
     ([\<lparr>f_column = ''ID'', f_concept = ''count'', f_value = Some ''deals'',
         f_isAggregate = True\<rparr>,
       \<lparr>f_column = ''MONTH_REPORTED'', f_concept = ''month'', f_value = None,
         f_isAggregate = False\<rparr>],
      [\<lparr>a_column = ''ID'', a_function = ''COUNT'', a_alias = ''TotalDeals''\<rparr>])"
  by code_simp

lemma time_count:
  "detectTimeRangeEnhanced ''count deals this month'' =
     Some (RelativeMonth ''this''
       ''MONTH_REPORTED = DATENAME(MONTH, GETDATE()) AND YEAR_REPORTED = YEAR(GETDATE())'')"
  by code_simp

lemma withCount_detected:
  "list_ex (\<lambda>a. a_function a = ''COUNT'') aggs \<Longrightarrow> withCount prompt aggs = aggs"
  by (simp add: withCount_def)

text \<open>
  Claim C6. For the prompt \<^verbatim>\<open>count deals this month\<close> the aggregates are exactly one
  entry, \<^verbatim>\<open>COUNT\<close> on \<^verbatim>\<open>ID\<close> with alias \<^verbatim>\<open>TotalDeals\<close>: the concept \<^verbatim>\<open>count\<close> is detected
  by its pattern, so the list built by the loop over the concepts already holds the
  entry and the special handling of the word \<^verbatim>\<open>count\<close> adds nothing. The time range is
  the relative-month value with \<^verbatim>\<open>relative\<close> equal to \<^verbatim>\<open>this\<close>.
\<close>

theorem analyze_count_deals_this_month:
  "snd (detectColumns ''count deals this month'')
     = [\<lparr>a_column = ''ID'', a_function = ''COUNT'', a_alias = ''TotalDeals''\<rparr>] \<and>
   aggregates (analyzeUserPrompt ''count deals this month'')
     = [\<lparr>a_column = ''ID'', a_function = ''COUNT'', a_alias = ''TotalDeals''\<rparr>] \<and>
   length (filter (\<lambda>a. a_function a = ''COUNT'')
             (aggregates (analyzeUserPrompt ''count deals this month''))) = 1 \<and>
   timeRange (analyzeUserPrompt ''count deals this month'')
     = Some (RelativeMonth ''this''
         ''MONTH_REPORTED = DATENAME(MONTH, GETDATE()) AND YEAR_REPORTED = YEAR(GETDATE())'')"
  by (simp add: analyzeUserPrompt_def columns_count time_count withCount_detected)

section \<open>The order of the time rules\<close>

lemma time_quarter:
  "detectTimeRangeEnhanced ''total gross for Q1 2025'' =
     Some (SpecificYear ''2025'' (''YEAR_REPORTED = '' @ quoted ''2025''))"
  by code_simp

lemma time_date:
  "detectTimeRangeEnhanced ''deals on January 9, 2026'' =
     Some (SpecificYear ''2026'' (''YEAR_REPORTED = '' @ quoted ''2026''))"
  by code_simp

lemma time_range:
  "detectTimeRangeEnhanced ''deals from January 1 to January 15 2026'' =
     Some (SpecificYear ''2026'' (''YEAR_REPORTED = '' @ quoted ''2026''))"
  by code_simp

lemma rule_positions:
  "length timeRules = 17 \<and> fst (timeRules ! 2) = (False, year20)"
  by (simp add: timeRules_def)

text \<open>
  Claim C5 says that the rule for a year alone is the last of the time rules, so that
  a prompt with a quarter and a year, a full date or a range of dates yields the value
  of that more specific rule. In the code the rule for a year alone is the third of
  seventeen, before the rules for a quarter with a year, a full date and a range of
  dates. The prompts \<^verbatim>\<open>total gross for Q1 2025\<close>, \<^verbatim>\<open>deals on January 9, 2026\<close> and
  \<^verbatim>\<open>deals from January 1 to January 15 2026\<close> all yield the year value; the last two
  hold the very examples the comments of the source give for the date rule and the
  range rule.
\<close>

theorem year_rule_shadows_later_rules:
  "length timeRules = 17 \<and>
   fst (timeRules ! 2) = (False, year20) \<and>
   detectTimeRangeEnhanced ''total gross for Q1 2025'' =
     Some (SpecificYear ''2025'' (''YEAR_REPORTED = '' @ quoted ''2025'')) \<and>
   detectTimeRangeEnhanced ''deals on January 9, 2026'' =
     Some (SpecificYear ''2026'' (''YEAR_REPORTED = '' @ quoted ''2026'')) \<and>
   detectTimeRangeEnhanced ''deals from January 1 to January 15 2026'' =
     Some (SpecificYear ''2026'' (''YEAR_REPORTED = '' @ quoted ''2026''))"
  using rule_positions time_quarter time_date time_range by simp

section \<open>Table detection\<close>

lemma foldl_times:
  "foldl (\<lambda>c x. if P x then f c else c) c0 xs = (f ^^ length (filter P xs)) c0"
  by (induction xs arbitrary: c0) (simp_all add: funpow_swap1)

lemma tableConfidence_count:
  "tableConfidence prompt config =
     ((\<lambda>c. fadd c (toDouble (5 / 10))) ^^
        length (filter (\<lambda>pat. test pat prompt)
                  (case tc_patterns config of None \<Rightarrow> [] | Some ps \<Rightarrow> ps)))
       (((\<lambda>c. fadd c (toDouble (3 / 10))) ^^
           length (filter (\<lambda>syn. str_includes (toLowerCase prompt) (toLowerCase syn))
                     (tc_synonyms config)))
          0)"
  by (cases "tc_patterns config") (simp_all add: tableConfidence_def Let_def foldl_times)

text \<open>The doubles of the literals \<^verbatim>\<open>0.3\<close> and \<^verbatim>\<open>0.5\<close>, and the sum that a first synonym
  gives.\<close>

lemma point3: "toDouble (3 / 10) = 5404319552844595 / 18014398509481984"
  by code_simp

lemma point5: "toDouble (5 / 10) = 1 / 2"
  by code_simp

lemma point5_half: "toDouble (1 / 2) = 1 / 2"
  by code_simp

lemma add_first:
  "fadd 0 (5404319552844595 / 18014398509481984) = 5404319552844595 / 18014398509481984"
  by code_simp

lemma one_hit_below: "fadd 0 (toDouble (3 / 10)) < toDouble (5 / 10)"
  by (simp add: point3 point5_half add_first)

lemma tableStep_alt:
  "tableStep prompt best entry =
     (if dt_confidence best < tableConfidence prompt (snd entry) then entryOf prompt entry
      else best)"
  by (simp add: tableStep_def entryOf_def Let_def)

text \<open>The loop keeps a best entry that no later entry beats, stays below any bound that
  all entries stay below, and ends with the first entry of the greatest score.\<close>

lemma fold_keep:
  "\<forall>e\<in>set ms. tableConfidence p (snd e) \<le> dt_confidence d \<Longrightarrow> foldl (tableStep p) d ms = d"
  by (induction ms) (simp_all add: tableStep_alt)

lemma fold_below:
  "dt_confidence d < c \<Longrightarrow> \<forall>e\<in>set ms. tableConfidence p (snd e) < c \<Longrightarrow>
   dt_confidence (foldl (tableStep p) d ms) < c"
  by (induction ms arbitrary: d) (simp_all add: tableStep_alt entryOf_def)

lemma fold_first_max:
  assumes "dt_confidence d < tableConfidence p (snd e)"
    and "\<forall>x\<in>set pre. tableConfidence p (snd x) < tableConfidence p (snd e)"
    and "\<forall>x\<in>set post. tableConfidence p (snd x) \<le> tableConfidence p (snd e)"
  shows "foldl (tableStep p) d (pre @ e # post) = entryOf p e"
proof -
  have "dt_confidence (foldl (tableStep p) d pre) < tableConfidence p (snd e)"
    using assms(1,2) by (rule fold_below)
  then have "tableStep p (foldl (tableStep p) d pre) e = entryOf p e"
    by (simp add: tableStep_alt)
  moreover have "foldl (tableStep p) (entryOf p e) post = entryOf p e"
    using assms(3) by (intro fold_keep) (simp add: entryOf_def)
  ultimately show ?thesis by simp
qed

text \<open>
  Claim C7. The score of a table entry is obtained from zero by adding 0.3 once for
  every synonym found in the lowered prompt and then 0.5 once for every pattern that
  matches, in double-precision arithmetic. The detected table is the result of
  the loop over \<open>TABLE_MAPPINGS\<close> that starts from \<^verbatim>\<open>SalesReport_Form_Input\<close> with
  confidence 0.5 and replaces the best entry only by an entry of a strictly greater
  score. So the default stays when no score exceeds 0.5; otherwise the first entry of
  the greatest score wins, entries of the same score after it changing nothing; and a
  prompt whose only evidence is one synonym of a table other than the sales table
  (score 0.3, all other scores 0) yields the default.
\<close>

theorem table_detection_scoring:
  "tableConfidence prompt config =
     ((\<lambda>c. fadd c (toDouble (5 / 10))) ^^
        length (filter (\<lambda>pat. test pat prompt)
                  (case tc_patterns config of None \<Rightarrow> [] | Some ps \<Rightarrow> ps)))
       (((\<lambda>c. fadd c (toDouble (3 / 10))) ^^
           length (filter (\<lambda>syn. str_includes (toLowerCase prompt) (toLowerCase syn))
                     (tc_synonyms config)))
          0) \<and>
   table (analyzeUserPrompt prompt) = foldl (tableStep prompt) defaultTable TABLE_MAPPINGS \<and>
   defaultTable =
     \<lparr>dt_table = ''SalesReport_Form_Input'', dt_confidence = toDouble (5 / 10),
      dt_key = ''sales''\<rparr> \<and>
   toDouble (3 / 10) = 5404319552844595 / 18014398509481984 \<and>
   toDouble (5 / 10) = 1 / 2 \<and>
   tableStep prompt best entry =
     (if dt_confidence best < tableConfidence prompt (snd entry) then entryOf prompt entry
      else best) \<and>
   ((\<forall>x\<in>set TABLE_MAPPINGS. tableConfidence prompt (snd x) \<le> toDouble (5 / 10)) \<longrightarrow>
      table (analyzeUserPrompt prompt) = defaultTable) \<and>
   (TABLE_MAPPINGS = pre @ e # post \<and> toDouble (5 / 10) < tableConfidence prompt (snd e) \<and>
    (\<forall>x\<in>set pre. tableConfidence prompt (snd x) < tableConfidence prompt (snd e)) \<and>
    (\<forall>x\<in>set post. tableConfidence prompt (snd x) \<le> tableConfidence prompt (snd e)) \<longrightarrow>
      table (analyzeUserPrompt prompt) = entryOf prompt e) \<and>
   (other \<in> set TABLE_MAPPINGS \<and> fst other \<noteq> ''sales'' \<and>
    tableConfidence prompt (snd other) = fadd 0 (toDouble (3 / 10)) \<and>
    (\<forall>x\<in>set TABLE_MAPPINGS. x \<noteq> other \<longrightarrow> tableConfidence prompt (snd x) = 0) \<longrightarrow>
      table (analyzeUserPrompt prompt) = defaultTable)"
proof (intro conjI impI)
  show "tableConfidence prompt config =
     ((\<lambda>c. fadd c (toDouble (5 / 10))) ^^
        length (filter (\<lambda>pat. test pat prompt)
                  (case tc_patterns config of None \<Rightarrow> [] | Some ps \<Rightarrow> ps)))
       (((\<lambda>c. fadd c (toDouble (3 / 10))) ^^
           length (filter (\<lambda>syn. str_includes (toLowerCase prompt) (toLowerCase syn))
                     (tc_synonyms config)))
          0)"
    by (rule tableConfidence_count)
  show "table (analyzeUserPrompt prompt) = foldl (tableStep prompt) defaultTable TABLE_MAPPINGS"
    by (simp add: analyzeUserPrompt_def detectTable_def)
  show "defaultTable =
     \<lparr>dt_table = ''SalesReport_Form_Input'', dt_confidence = toDouble (5 / 10),
      dt_key = ''sales''\<rparr>"
    by (simp add: defaultTable_def)
  show "toDouble (3 / 10) = 5404319552844595 / 18014398509481984"
    by (rule point3)
  show "toDouble (5 / 10) = 1 / 2"
    by (rule point5)
  show "tableStep prompt best entry =
     (if dt_confidence best < tableConfidence prompt (snd entry) then entryOf prompt entry
      else best)"
    by (rule tableStep_alt)
next
  assume "\<forall>x\<in>set TABLE_MAPPINGS. tableConfidence prompt (snd x) \<le> toDouble (5 / 10)"
  then have "foldl (tableStep prompt) defaultTable TABLE_MAPPINGS = defaultTable"
    by (intro fold_keep) (simp add: defaultTable_def)
  then show "table (analyzeUserPrompt prompt) = defaultTable"
    by (simp add: analyzeUserPrompt_def detectTable_def)
next
  assume a: "TABLE_MAPPINGS = pre @ e # post \<and> toDouble (5 / 10) < tableConfidence prompt (snd e) \<and>
    (\<forall>x\<in>set pre. tableConfidence prompt (snd x) < tableConfidence prompt (snd e)) \<and>
    (\<forall>x\<in>set post. tableConfidence prompt (snd x) \<le> tableConfidence prompt (snd e))"
  then have "foldl (tableStep prompt) defaultTable (pre @ e # post) = entryOf prompt e"
    by (intro fold_first_max) (simp_all add: defaultTable_def)
  with a show "table (analyzeUserPrompt prompt) = entryOf prompt e"
    by (simp add: analyzeUserPrompt_def detectTable_def)
next
  assume a: "other \<in> set TABLE_MAPPINGS \<and> fst other \<noteq> ''sales'' \<and>
    tableConfidence prompt (snd other) = fadd 0 (toDouble (3 / 10)) \<and>
    (\<forall>x\<in>set TABLE_MAPPINGS. x \<noteq> other \<longrightarrow> tableConfidence prompt (snd x) = 0)"
  have "\<forall>x\<in>set TABLE_MAPPINGS. tableConfidence prompt (snd x) \<le> dt_confidence defaultTable"
  proof
    fix x assume "x \<in> set TABLE_MAPPINGS"
    with a show "tableConfidence prompt (snd x) \<le> dt_confidence defaultTable"
      using one_hit_below by (cases "x = other") (auto simp: defaultTable_def point5_half)
  qed
  then have "foldl (tableStep prompt) defaultTable TABLE_MAPPINGS = defaultTable"
    by (rule fold_keep)
  then show "table (analyzeUserPrompt prompt) = defaultTable"
    by (simp add: analyzeUserPrompt_def detectTable_def)
qed

lemma conf_stock:
  "map (\<lambda>e. tableConfidence ''show stock'' (snd e)) TABLE_MAPPINGS
     = [0, 5404319552844595 / 18014398509481984, 0]"
  by code_simp

lemma conf_tie:
  "map (\<lambda>e. tableConfidence ''sold deal stock available'' (snd e)) TABLE_MAPPINGS
     = [5404319552844595 / 9007199254740992, 5404319552844595 / 9007199254740992, 0]"
  by code_simp

lemma conf_inventory:
  "map (\<lambda>e. tableConfidence ''stock available'' (snd e)) TABLE_MAPPINGS
     = [0, 5404319552844595 / 9007199254740992, 0]"
  by code_simp

text \<open>Three prompts: one synonym of the inventory table; two synonyms each of the sales
  and the inventory table; two synonyms of the inventory table alone.\<close>

theorem table_detection_scoring_witness:
  "map (\<lambda>e. tableConfidence ''show stock'' (snd e)) TABLE_MAPPINGS
     = [0, 5404319552844595 / 18014398509481984, 0] \<and>
   table (analyzeUserPrompt ''show stock'') =
     \<lparr>dt_table = ''SalesReport_Form_Input'', dt_confidence = 1 / 2, dt_key = ''sales''\<rparr> \<and>
   map (\<lambda>e. tableConfidence ''sold deal stock available'' (snd e)) TABLE_MAPPINGS
     = [5404319552844595 / 9007199254740992, 5404319552844595 / 9007199254740992, 0] \<and>
   table (analyzeUserPrompt ''sold deal stock available'') =
     \<lparr>dt_table = ''SalesReport_Form_Input'',
      dt_confidence = 5404319552844595 / 9007199254740992, dt_key = ''sales''\<rparr> \<and>
   map (\<lambda>e. tableConfidence ''stock available'' (snd e)) TABLE_MAPPINGS
     = [0, 5404319552844595 / 9007199254740992, 0] \<and>
   table (analyzeUserPrompt ''stock available'') =
     \<lparr>dt_table = ''Common_Group_401_Vehicle_Inventory'',
      dt_confidence = 5404319552844595 / 9007199254740992, dt_key = ''inventory''\<rparr>"
proof -
  define s where "s = TABLE_MAPPINGS ! 0"
  define i where "i = TABLE_MAPPINGS ! 1"
  define r where "r = TABLE_MAPPINGS ! 2"
  have tm: "TABLE_MAPPINGS = [s, i, r]"
    by (simp add: s_def i_def r_def TABLE_MAPPINGS_def)
  have names: "fst s = ''sales''" "tc_table (snd s) = ''SalesReport_Form_Input''"
    "fst i = ''inventory''" "tc_table (snd i) = ''Common_Group_401_Vehicle_Inventory''"
    by (simp_all add: s_def i_def TABLE_MAPPINGS_def)
  have c1: "tableConfidence ''show stock'' (snd s) = 0"
    "tableConfidence ''show stock'' (snd i) = 5404319552844595 / 18014398509481984"
    "tableConfidence ''show stock'' (snd r) = 0"
    using conf_stock unfolding tm by simp_all
  have h1: "i \<in> set TABLE_MAPPINGS \<and> fst i \<noteq> ''sales'' \<and>
      tableConfidence ''show stock'' (snd i) = fadd 0 (toDouble (3 / 10)) \<and>
      (\<forall>x\<in>set TABLE_MAPPINGS. x \<noteq> i \<longrightarrow> tableConfidence ''show stock'' (snd x) = 0)"
    using c1 names by (auto simp: tm point3 add_first)
  have r1: "table (analyzeUserPrompt ''show stock'') = defaultTable"
    using table_detection_scoring [where prompt = "''show stock''" and other = i] h1
    by blast
  have c2: "tableConfidence ''sold deal stock available'' (snd s)
        = 5404319552844595 / 9007199254740992"
    "tableConfidence ''sold deal stock available'' (snd i)
        = 5404319552844595 / 9007199254740992"
    "tableConfidence ''sold deal stock available'' (snd r) = 0"
    using conf_tie unfolding tm by simp_all
  have h2: "TABLE_MAPPINGS = [] @ s # [i, r] \<and>
      toDouble (5 / 10) < tableConfidence ''sold deal stock available'' (snd s) \<and>
      (\<forall>x\<in>set []. tableConfidence ''sold deal stock available'' (snd x)
          < tableConfidence ''sold deal stock available'' (snd s)) \<and>
      (\<forall>x\<in>set [i, r]. tableConfidence ''sold deal stock available'' (snd x)
          \<le> tableConfidence ''sold deal stock available'' (snd s))"
    using c2 by (simp add: tm point5_half)
  have r2: "table (analyzeUserPrompt ''sold deal stock available'') =
      entryOf ''sold deal stock available'' s"
    using table_detection_scoring
      [where prompt = "''sold deal stock available''" and pre = "[]" and e = s
         and post = "[i, r]"] h2
    by blast
  have c3: "tableConfidence ''stock available'' (snd s) = 0"
    "tableConfidence ''stock available'' (snd i) = 5404319552844595 / 9007199254740992"
    "tableConfidence ''stock available'' (snd r) = 0"
    using conf_inventory unfolding tm by simp_all
  have h3: "TABLE_MAPPINGS = [s] @ i # [r] \<and>
      toDouble (5 / 10) < tableConfidence ''stock available'' (snd i) \<and>
      (\<forall>x\<in>set [s]. tableConfidence ''stock available'' (snd x)
          < tableConfidence ''stock available'' (snd i)) \<and>
      (\<forall>x\<in>set [r]. tableConfidence ''stock available'' (snd x)
          \<le> tableConfidence ''stock available'' (snd i))"
    using c3 by (simp add: tm point5_half)
  have r3: "table (analyzeUserPrompt ''stock available'') = entryOf ''stock available'' i"
    using table_detection_scoring
      [where prompt = "''stock available''" and pre = "[s]" and e = i and post = "[r]"] h3
    by blast
  show ?thesis
    using conf_stock conf_tie conf_inventory r1 r2 r3 c2 c3 names
    by (simp add: entryOf_def defaultTable_def point5_half)
qed

section \<open>The choice of a visualization\<close>

lemma firstGroup4:
  "firstGroup [(p1, t1), (p2, t2), (p3, t3), (p4, t4)] s =
     (if test p1 s then Some t1 else if test p2 s then Some t2
      else if test p3 s then Some t3 else if test p4 s then Some t4 else None)"
  by simp

lemma chartType_chain:
  "chartType prompt =
     (if test (True, chartWords ''bar'') prompt then ''bar''
      else if test (True, chartWords ''line'') prompt then ''line''
      else if test (True, chartWords ''pie'') prompt then ''pie''
      else if test (True, tableWords) prompt then ''table''
      else [])"
  unfolding chartType_def chartPatterns_def firstGroup4 by simp

lemma numericCols_nonempty:
  "(1 \<le> length (numericCols r)) =
     list_ex (\<lambda>c. case map_of r c of Some v \<Rightarrow> numericLooking v | None \<Rightarrow> False) (map fst r)"
  by (simp add: numericCols_def list_ex_iff Suc_le_eq length_greater_0_conv filter_empty_conv)

lemma numericCols_nonempty_Suc:
  "(Suc 0 \<le> length (numericCols r)) =
     list_ex (\<lambda>c. case map_of r c of Some v \<Rightarrow> numericLooking v | None \<Rightarrow> False) (map fst r)"
  using numericCols_nonempty [of r] by simp

lemma month_reported_dateLike: "test dateLike ''MONTH_REPORTED''"
  by code_simp

text \<open>
  Claim C9. The chart kind named in the prompt is that of the first of the patterns
  for bar, line, pie and table that matches, and it is the visualization whenever there
  is one. Without one, and with a first row, the visualization is \<^verbatim>\<open>line\<close> when a column
  name of that row matches \<^verbatim>\<open>date|month|year|time\<close> and a column holds a numeric-looking
  value, \<^verbatim>\<open>bar\<close> when a column holds a numeric-looking value and the row has at most
  three columns, and \<^verbatim>\<open>table\<close> otherwise. Without rows the visualization is the chart kind
  of the prompt, empty when the prompt names none. A first row with the columns
  \<^verbatim>\<open>MONTH_REPORTED\<close> and \<^verbatim>\<open>TotalGross\<close>, the second numeric-looking, and a prompt that names
  no chart kind give \<^verbatim>\<open>line\<close>.
\<close>

theorem visualization_choice:
  "chartType prompt =
     (if test (True, chartWords ''bar'') prompt then ''bar''
      else if test (True, chartWords ''line'') prompt then ''line''
      else if test (True, chartWords ''pie'') prompt then ''pie''
      else if test (True, tableWords) prompt then ''table''
      else []) \<and>
   (chartType prompt \<noteq> [] \<longrightarrow> chooseVisualization prompt recordset = chartType prompt) \<and>
   (recordset = None \<or> recordset = Some [] \<longrightarrow>
      chooseVisualization prompt recordset = chartType prompt) \<and>
   (chartType prompt = [] \<longrightarrow>
      chooseVisualization prompt (Some (r # rest)) =
        (if list_ex (test dateLike) (map fst r) \<and>
            list_ex (\<lambda>c. case map_of r c of Some v \<Rightarrow> numericLooking v | None \<Rightarrow> False)
              (map fst r)
         then ''line''
         else if list_ex (\<lambda>c. case map_of r c of Some v \<Rightarrow> numericLooking v | None \<Rightarrow> False)
                   (map fst r) \<and> length r \<le> 3
         then ''bar''
         else ''table'')) \<and>
   (chartType prompt = [] \<and> numericLooking v \<longrightarrow>
      chooseVisualization prompt (Some ([(''MONTH_REPORTED'', m), (''TotalGross'', v)] # rest))
        = ''line'')"
proof (intro conjI impI)
  show "chartType prompt =
     (if test (True, chartWords ''bar'') prompt then ''bar''
      else if test (True, chartWords ''line'') prompt then ''line''
      else if test (True, chartWords ''pie'') prompt then ''pie''
      else if test (True, tableWords) prompt then ''table''
      else [])"
    by (rule chartType_chain)
next
  assume "chartType prompt \<noteq> []"
  then show "chooseVisualization prompt recordset = chartType prompt"
    by (simp add: chooseVisualization_def Let_def split: option.splits list.splits)
next
  assume "recordset = None \<or> recordset = Some []"
  then show "chooseVisualization prompt recordset = chartType prompt"
    by (auto simp add: chooseVisualization_def Let_def)
next
  assume "chartType prompt = []"
  then show "chooseVisualization prompt (Some (r # rest)) =
        (if list_ex (test dateLike) (map fst r) \<and>
            list_ex (\<lambda>c. case map_of r c of Some v \<Rightarrow> numericLooking v | None \<Rightarrow> False)
              (map fst r)
         then ''line''
         else if list_ex (\<lambda>c. case map_of r c of Some v \<Rightarrow> numericLooking v | None \<Rightarrow> False)
                   (map fst r) \<and> length r \<le> 3
         then ''bar''
         else ''table'')"
    by (simp add: chooseVisualization_def Let_def numericCols_nonempty_Suc)
next
  assume a: "chartType prompt = [] \<and> numericLooking v"
  then have "1 \<le> length (numericCols [(''MONTH_REPORTED'', m), (''TotalGross'', v)])"
    unfolding numericCols_nonempty by simp
  with a show "chooseVisualization prompt
      (Some ([(''MONTH_REPORTED'', m), (''TotalGross'', v)] # rest)) = ''line''"
    by (simp add: chooseVisualization_def Let_def month_reported_dateLike)
qed

lemma chartType_none: "chartType ''show gross by month'' = []"
  by code_simp

lemma chartType_bar: "chartType ''show gross by month as a bar chart'' = ''bar''"
  by code_simp

lemma numeric_text: "numericLooking (JString ''1250.75'')"
  by code_simp

lemma dealer_row:
  "\<not> list_ex (test dateLike) (map fst [(''DEALER_LOCATION'', JString ''Calgary''),
                                        (''TotalGross'', JNumber 5)]) \<and>
   list_ex (\<lambda>c. case map_of [(''DEALER_LOCATION'', JString ''Calgary''),
                              (''TotalGross'', JNumber 5)] c of
                  Some v \<Rightarrow> numericLooking v | None \<Rightarrow> False)
     (map fst [(''DEALER_LOCATION'', JString ''Calgary''), (''TotalGross'', JNumber 5)])"
  by code_simp

lemma names_row:
  "\<not> list_ex (\<lambda>c. case map_of [(''FIRST_NAME'', JString ''Ann''), (''LAST_NAME'', JNull)] c of
                    Some v \<Rightarrow> numericLooking v | None \<Rightarrow> False)
       (map fst [(''FIRST_NAME'', JString ''Ann''), (''LAST_NAME'', JNull)])"
  by code_simp

theorem visualization_choice_witness:
  "chartType ''show gross by month'' = [] \<and>
   numericLooking (JString ''1250.75'') \<and>
   chooseVisualization ''show gross by month''
     (Some [[(''MONTH_REPORTED'', JString ''October''), (''TotalGross'', JString ''1250.75'')]])
     = ''line'' \<and>
   chooseVisualization ''show gross by month''
     (Some [[(''DEALER_LOCATION'', JString ''Calgary''), (''TotalGross'', JNumber 5)]])
     = ''bar'' \<and>
   chooseVisualization ''show gross by month''
     (Some [[(''FIRST_NAME'', JString ''Ann''), (''LAST_NAME'', JNull)]])
     = ''table'' \<and>
   chooseVisualization ''show gross by month'' (Some []) = [] \<and>
   chartType ''show gross by month as a bar chart'' = ''bar'' \<and>
   chooseVisualization ''show gross by month as a bar chart''
     (Some [[(''MONTH_REPORTED'', JString ''October''), (''TotalGross'', JString ''1250.75'')]])
     = ''bar''"
proof -
  note none = chartType_none
  have line: "chooseVisualization ''show gross by month''
      (Some ([(''MONTH_REPORTED'', JString ''October''), (''TotalGross'', JString ''1250.75'')]
             # [])) = ''line''"
    using visualization_choice [where prompt = "''show gross by month''"
        and v = "JString ''1250.75''" and m = "JString ''October''" and rest = "[]"]
      none numeric_text
    by blast
  have bar: "chooseVisualization ''show gross by month''
      (Some ([(''DEALER_LOCATION'', JString ''Calgary''), (''TotalGross'', JNumber 5)] # []))
      = ''bar''"
    using visualization_choice [where prompt = "''show gross by month''"
        and r = "[(''DEALER_LOCATION'', JString ''Calgary''), (''TotalGross'', JNumber 5)]"
        and rest = "[]"]
      none dealer_row
    by simp
  have tbl: "chooseVisualization ''show gross by month''
      (Some ([(''FIRST_NAME'', JString ''Ann''), (''LAST_NAME'', JNull)] # [])) = ''table''"
    using visualization_choice [where prompt = "''show gross by month''"
        and r = "[(''FIRST_NAME'', JString ''Ann''), (''LAST_NAME'', JNull)]" and rest = "[]"]
      none names_row
    by simp
  have empty: "chooseVisualization ''show gross by month'' (Some []) = []"
    using visualization_choice [where prompt = "''show gross by month''"
        and recordset = "Some []"]
      none
    by simp
  have explicit: "chooseVisualization ''show gross by month as a bar chart''
      (Some [[(''MONTH_REPORTED'', JString ''October''),
              (''TotalGross'', JString ''1250.75'')]]) = ''bar''"
    using visualization_choice [where prompt = "''show gross by month as a bar chart''"
        and recordset = "Some [[(''MONTH_REPORTED'', JString ''October''),
                                (''TotalGross'', JString ''1250.75'')]]"]
      chartType_bar
    by simp
  from none numeric_text line bar tbl empty chartType_bar explicit show ?thesis
    by simp
qed

section \<open>The generator without a schema snapshot\<close>

lemma getCachedSchema_none:
  "dbConfig g = None \<Longrightarrow> schemaMem g = None \<Longrightarrow>
   hasRedis g \<longrightarrow> redisGet a = Inr Miss \<or> redisGet a = Inr Garbage \<Longrightarrow>
   getCachedSchema g a = (Inr None, g)"
  by (auto simp add: getCachedSchema_def fromDbOrMemory_def)

lemma check_none:
  "getCachedSchema g a = (Inr None, g') \<Longrightarrow> checkSqlAgainstSchema g a sqlText = (Inr True, g')"
  by (simp add: checkSqlAgainstSchema_def)

text \<open>
  Claim C10. When no database is configured, the memory holds no schema, and the
  external cache is absent or answers with nothing (or with a text that cannot be
  parsed), \<^verbatim>\<open>_getCachedSchema\<close> yields \<^verbatim>\<open>null\<close> and \<^verbatim>\<open>checkSqlAgainstSchema\<close> returns true for
  every text, leaving the generator as it was. In that state \<^verbatim>\<open>generateSqlFromPrompt\<close>
  returns the fallback when the model throws, answers with nothing, or answers with a
  text that fails \<^verbatim>\<open>validateSqlSafety\<close>, and otherwise returns the model's text without
  its closing semicolons, whatever the option \<^verbatim>\<open>enforceSchemaCheck\<close> is.
\<close>

theorem no_schema_accepts:
  "(dbConfig g = None \<and> schemaMem g = None \<and>
    (hasRedis g \<longrightarrow> redisGet a = Inr Miss \<or> redisGet a = Inr Garbage) \<longrightarrow>
      getCachedSchema g a = (Inr None, g) \<and>
      checkSqlAgainstSchema g a sqlText = (Inr True, g)) \<and>
   (dbConfig g = None \<and> schemaMem g = None \<and>
    (hasRedis g \<longrightarrow> redisGet a1 = Inr Miss \<or> redisGet a1 = Inr Garbage) \<and>
    (hasRedis g \<longrightarrow> redisGet a2 = Inr Miss \<or> redisGet a2 = Inr Garbage) \<longrightarrow>
      generateSqlFromPrompt g a1 llmClient a2 userPrompt enforceOpt =
        (Inr (case llmClient (buildMessages g (renderSchemaDescription None)
                                (normalizePrompt userPrompt)) of
                Inl err \<Rightarrow> fallbackSql
              | Inr content \<Rightarrow>
                  let sqlText = trim (case content of None \<Rightarrow> [] | Some c \<Rightarrow> c) in
                  if sqlText = [] \<or> \<not> validateSqlSafety sqlText then fallbackSql
                  else replaceAll sqlText trailingSemicolons []),
         g))"
proof (intro conjI impI)
  assume a: "dbConfig g = None \<and> schemaMem g = None \<and>
    (hasRedis g \<longrightarrow> redisGet a = Inr Miss \<or> redisGet a = Inr Garbage)"
  then have "getCachedSchema g a = (Inr None, g)"
    by (intro getCachedSchema_none) simp_all
  then show "getCachedSchema g a = (Inr None, g)"
    and "checkSqlAgainstSchema g a sqlText = (Inr True, g)"
    by (simp_all add: check_none)
next
  assume a: "dbConfig g = None \<and> schemaMem g = None \<and>
    (hasRedis g \<longrightarrow> redisGet a1 = Inr Miss \<or> redisGet a1 = Inr Garbage) \<and>
    (hasRedis g \<longrightarrow> redisGet a2 = Inr Miss \<or> redisGet a2 = Inr Garbage)"
  then have g1: "getCachedSchema g a1 = (Inr None, g)"
    by (intro getCachedSchema_none) simp_all
  from a have "getCachedSchema g a2 = (Inr None, g)"
    by (intro getCachedSchema_none) simp_all
  then have c2: "\<And>s. checkSqlAgainstSchema g a2 s = (Inr True, g)"
    by (simp add: check_none)
  show "generateSqlFromPrompt g a1 llmClient a2 userPrompt enforceOpt =
        (Inr (case llmClient (buildMessages g (renderSchemaDescription None)
                                (normalizePrompt userPrompt)) of
                Inl err \<Rightarrow> fallbackSql
              | Inr content \<Rightarrow>
                  let sqlText = trim (case content of None \<Rightarrow> [] | Some c \<Rightarrow> c) in
                  if sqlText = [] \<or> \<not> validateSqlSafety sqlText then fallbackSql
                  else replaceAll sqlText trailingSemicolons []),
         g)"
    by (simp add: generateSqlFromPrompt_def Let_def g1 c2 split: sum.splits option.splits)
qed

lemma unknown_names_safe: "validateSqlSafety ''SELECT Profit FROM Ledger;''"
proof -
  have t: "trim ''SELECT Profit FROM Ledger;'' = ''SELECT Profit FROM Ledger;''"
    by code_simp
  have "test (True, Seq Bol (Seq (Grp 1 (Alt (Str ''SELECT'') (Str ''WITH''))) WordB))
          ''SELECT Profit FROM Ledger;'' \<and>
        \<not> list_ex (\<lambda>p. test (True, p) ''SELECT Profit FROM Ledger;'') forbiddenPatterns \<and>
        \<not> test (True, wholeWord ''xp_cmdshell'') ''SELECT Profit FROM Ledger;'' \<and>
        \<not> test (True, Seq WordB (Str ''sp_'')) ''SELECT Profit FROM Ledger;''"
    by code_simp
  then show ?thesis
    by (subst validateSqlSafety_short) (simp_all add: t)
qed

lemma unknown_names_trim: "trim ''SELECT Profit FROM Ledger;'' = ''SELECT Profit FROM Ledger;''"
  by code_simp

lemma unknown_names_strip:
  "replaceAll ''SELECT Profit FROM Ledger;'' trailingSemicolons [] = ''SELECT Profit FROM Ledger''"
  by code_simp

text \<open>With a schema in memory the same text does not pass the check: its table and
  column are not in the schema.\<close>

lemma unknown_names_rejected:
  "checkSqlAgainstSchema cachedGenerator emptyCache ''SELECT Profit FROM Ledger;''
     = (Inr False, cachedGenerator)"
proof -
  have m: "getCachedSchema cachedGenerator emptyCache =
      (Inr (Some [(''SalesReport_Form_Input'', [(''ID'', ''int''), (''TOTAL_COST'', ''varchar'')])]),
       cachedGenerator)"
    by (simp add: getCachedSchema_def cachedGenerator_def bareGenerator_def emptyCache_def)
  have "\<not> list_all (\<lambda>tk. tk \<in> set allowedWords \<or>
            tk \<in> set (knownNames [(''SalesReport_Form_Input'',
                                     [(''ID'', ''int''), (''TOTAL_COST'', ''varchar'')])]))
          (sqlTokens ''SELECT Profit FROM Ledger;'')"
    by code_simp
  then show ?thesis
    by (simp add: checkSqlAgainstSchema_def m)
qed

theorem no_schema_accepts_witness:
  "dbConfig bareGenerator = None \<and> schemaMem bareGenerator = None \<and>
   redisGet emptyCache = Inr Miss \<and>
   checkSqlAgainstSchema bareGenerator emptyCache ''SELECT Profit FROM Ledger;''
     = (Inr True, bareGenerator) \<and>
   generateSqlFromPrompt bareGenerator emptyCache
       (\<lambda>messages. Inr (Some ''SELECT Profit FROM Ledger;'')) emptyCache
       (Some ''profit by ledger'') None
     = (Inr ''SELECT Profit FROM Ledger'', bareGenerator)"
proof -
  have h: "dbConfig bareGenerator = None" "schemaMem bareGenerator = None"
    "redisGet emptyCache = Inr Miss"
    by (simp_all add: bareGenerator_def emptyCache_def)
  have c: "checkSqlAgainstSchema bareGenerator emptyCache ''SELECT Profit FROM Ledger;''
      = (Inr True, bareGenerator)"
    using no_schema_accepts [where g = bareGenerator and a = emptyCache
        and sqlText = "''SELECT Profit FROM Ledger;''"] h
    by simp
  have g: "generateSqlFromPrompt bareGenerator emptyCache
       (\<lambda>messages. Inr (Some ''SELECT Profit FROM Ledger;'')) emptyCache
       (Some ''profit by ledger'') None
     = (Inr ''SELECT Profit FROM Ledger'', bareGenerator)"
    using no_schema_accepts [where g = bareGenerator and ?a1.0 = emptyCache
        and ?a2.0 = emptyCache
        and llmClient = "\<lambda>messages. Inr (Some ''SELECT Profit FROM Ledger;'')"
        and userPrompt = "Some ''profit by ledger''" and enforceOpt = None] h
    by (simp add: unknown_names_safe unknown_names_trim unknown_names_strip)
  from h c g show ?thesis by simp
qed

section \<open>Errors that escape \<^verbatim>\<open>generateSqlFromPrompt\<close>\<close>

lemma select1_safe: "validateSqlSafety ''SELECT 1''"
proof -
  have t: "trim ''SELECT 1'' = ''SELECT 1''"
    by code_simp
  have "test (True, Seq Bol (Seq (Grp 1 (Alt (Str ''SELECT'') (Str ''WITH''))) WordB))
          ''SELECT 1'' \<and>
        \<not> list_ex (\<lambda>p. test (True, p) ''SELECT 1'') forbiddenPatterns \<and>
        \<not> test (True, wholeWord ''xp_cmdshell'') ''SELECT 1'' \<and>
        \<not> test (True, Seq WordB (Str ''sp_'')) ''SELECT 1''"
    by code_simp
  then show ?thesis
    by (subst validateSqlSafety_short) (simp_all add: t)
qed

lemma select1_trim: "trim ''SELECT 1'' = ''SELECT 1''"
  by code_simp

lemma select1_strip: "replaceAll ''SELECT 1'' trailingSemicolons [] = ''SELECT 1''"
  by code_simp

lemma unreachable_lookup:
  "getCachedSchema dbGenerator unreachable =
     (Inl (JsError ''Failed to connect to db:1433''), dbGenerator)"
  by (simp add: getCachedSchema_def fromDbOrMemory_def refreshSchemaFromDb_def
      dbGenerator_def unreachable_def)

text \<open>The paths on which the source does return the fallback: the model throws, the
  model answers with nothing or with white space, the answer fails the safety check,
  and the schema check says no.\<close>

lemma fallback_when_model_throws:
  "fst (generateSqlFromPrompt g a1 (\<lambda>messages. Inl err) a2 userPrompt enforceOpt)
     = Inr fallbackSql"
  by (simp add: generateSqlFromPrompt_def Let_def)

lemma fallback_when_answer_empty:
  "trim (case content of None \<Rightarrow> [] | Some c \<Rightarrow> c) = [] \<Longrightarrow>
   fst (generateSqlFromPrompt g a1 (\<lambda>messages. Inr content) a2 userPrompt enforceOpt)
     = Inr fallbackSql"
  by (simp add: generateSqlFromPrompt_def Let_def)

lemma fallback_when_unsafe:
  "\<not> validateSqlSafety (trim c) \<Longrightarrow>
   fst (generateSqlFromPrompt g a1 (\<lambda>messages. Inr (Some c)) a2 userPrompt enforceOpt)
     = Inr fallbackSql"
  by (simp add: generateSqlFromPrompt_def Let_def)

lemma fallback_when_schema_mismatch:
  "fst (checkSqlAgainstSchema (snd (getCachedSchema g a1)) a2 (trim c)) = Inr False \<Longrightarrow>
   fst (generateSqlFromPrompt g a1 (\<lambda>messages. Inr (Some c)) a2 userPrompt None)
     = Inr fallbackSql"
  by (auto simp add: generateSqlFromPrompt_def Let_def split: prod.splits sum.splits)

text \<open>
  Claim C3 says that \<^verbatim>\<open>generateSqlFromPrompt\<close> never throws. It does, when the database
  is configured and cannot be reached: the first schema lookup fails and its error is
  caught, the model answers \<^verbatim>\<open>SELECT 1\<close>, the text passes the safety check, and the schema
  check looks the schema up again with nothing to catch the error of the database.
  The request ends with that error, not with the fallback. With the schema check
  switched off the same request returns \<^verbatim>\<open>SELECT 1\<close>.
\<close>

theorem generate_throws_when_db_unreachable:
  "generateSqlFromPrompt dbGenerator unreachable (\<lambda>messages. Inr (Some ''SELECT 1''))
      unreachable (Some ''count deals'') None
     = (Inl (JsError ''Failed to connect to db:1433''), dbGenerator) \<and>
   generateSqlFromPrompt dbGenerator unreachable (\<lambda>messages. Inr (Some ''SELECT 1''))
      unreachable (Some ''count deals'') (Some False)
     = (Inr ''SELECT 1'', dbGenerator)"
  by (simp add: generateSqlFromPrompt_def Let_def unreachable_lookup checkSqlAgainstSchema_def
      select1_safe select1_trim select1_strip)

end
